theory Spec2Isabelle
  imports Complex_Main "HOL-Library.Word"
begin

section \<open>Floating-point values\<close>

text \<open>
  The C sources compute on binary32 values (\<^verbatim>\<open>float\<close>).  A binary32 value is read as the
  real number it denotes.  An operation of the source rounds its exact result to the
  nearest binary32 value, ties to the even significand; \<open>float_round\<close> is that rounding,
  subnormal values included.  The suppression rules, the frame counter of the transient
  detector and the wet/dry update are modelled with the rounding of each operation
  (evaluation in binary32, one rounding per operation).  The sums of wideband gating and
  the arithmetic on the bins of the spectral pipeline (analysis, spectra, blend) are the
  exact ones.  The exponent range is not bounded above: overflow to an infinity is
  outside the model.  The operations that can turn finite operands into an invalid value
  (NaN or an infinity), namely division by zero and the square root of a negative number,
  are partial here: \<open>None\<close> stands for the invalid value.
\<close>

definition FLT_MIN :: real where
  \<comment> \<open>from \<^verbatim>\<open>float.h\<close>: the smallest positive normal binary32 value, 2 to the power -126\<close>
  "FLT_MIN = 1 / 2 ^ 126"

definition round_even :: "real \<Rightarrow> int" where
  \<comment> \<open>the nearest integer, a tie going to the even one\<close>
  "round_even y =
     (let f = \<lfloor>y\<rfloor>; r = y - of_int f
      in if r < 1 / 2 then f else if 1 / 2 < r then f + 1 else if even f then f else f + 1)"

definition float_exponent :: "real \<Rightarrow> int" where
  \<comment> \<open>the binary exponent of a nonzero value, at least -126 (below that the values are
      subnormal and share the exponent -126)\<close>
  "float_exponent x = max \<lfloor>log 2 \<bar>x\<bar>\<rfloor> (- 126)"

definition float_round :: "real \<Rightarrow> real" where
  \<comment> \<open>a binary32 significand has 24 bits: the values with exponent \<open>e\<close> are the integer
      multiples of 2 to the power \<open>e - 23\<close>\<close>
  "float_round x =
     (if x = 0 then 0
      else of_int (round_even (x / 2 powi (float_exponent x - 23)))
           * 2 powi (float_exponent x - 23))"

definition fdiv :: "real \<Rightarrow> real \<Rightarrow> real option" where
  "fdiv a b = (if b = 0 then None else Some (float_round (a / b)))"

definition fsqrt :: "real \<Rightarrow> real option" where
  \<comment> \<open>\<^verbatim>\<open>sqrtf\<close>, correctly rounded\<close>
  "fsqrt a = (if a < 0 then None else Some (float_round (sqrt a)))"

definition MAX_macro :: "real \<Rightarrow> real \<Rightarrow> real" where
  \<comment> \<open>Modelled from the spec: the macro \<^verbatim>\<open>MAX\<close> is used by the suppression rules but
      defined in a header that is not among the sources; the spec writes the
      subtraction as \<open>max(signal[k]-noise[k],0)\<close>.\<close>
  "MAX_macro a b = (if a > b then a else b)"

section \<open>Suppression rules\<close>

text \<open>
  Each rule runs \<^verbatim>\<open>for (k = 0; k <= fft_size_2; k++)\<close> and stores one gain per bin in
  \<^verbatim>\<open>Gk\<close>.  The value stored at one bin is a function of that bin's operands; the loop is
  a fold over the bin indices that updates \<^verbatim>\<open>Gk\<close> in place.
\<close>

definition nonlinear_gain :: "real \<Rightarrow> real \<Rightarrow> real \<Rightarrow> real option" where
  \<comment> \<open>the local \<^verbatim>\<open>gain\<close> of \<^verbatim>\<open>nonlinear_power_sustraction\<close> before the clamp\<close>
  "nonlinear_gain snr_influence s n =
     (if s > 0 then
        (case (if snr_influence > 0 then
                 (case fdiv s n of None \<Rightarrow> None
                  | Some q \<Rightarrow> (case fsqrt q of None \<Rightarrow> None
                              | Some r \<Rightarrow> Some (float_round (snr_influence + r))))
               else Some 1) of
           None \<Rightarrow> None
         | Some alpha \<Rightarrow> fdiv (MAX_macro (float_round (s - float_round (alpha * n))) 0) s)
      else Some 0)"

definition avoid_invalid_gain :: "real \<Rightarrow> real" where
  \<comment> \<open>\<^verbatim>\<open>Fk = 1 - gain; if (Fk < 0) Fk = 0; if (Fk > 1) Fk = 1; Gk[k] = 1 - Fk\<close>\<close>
  "avoid_invalid_gain gain =
     (let Fk = float_round (1 - gain);
          Fk = (if Fk < 0 then 0 else Fk);
          Fk = (if Fk > 1 then 1 else Fk)
      in float_round (1 - Fk))"

definition nonlinear_power_sustraction_bin :: "real \<Rightarrow> real \<Rightarrow> real \<Rightarrow> real option" where
  "nonlinear_power_sustraction_bin snr_influence s n =
     (if n > FLT_MIN then
        (case nonlinear_gain snr_influence s n of None \<Rightarrow> None
         | Some gain \<Rightarrow> Some (avoid_invalid_gain gain))
      else Some 1)"

definition nonlinear_power_sustraction ::
  "real \<Rightarrow> nat \<Rightarrow> real list \<Rightarrow> real list \<Rightarrow> real option list \<Rightarrow> real option list" where
  "nonlinear_power_sustraction snr_influence fft_size_2 spectrum noise_thresholds Gk =
     fold (\<lambda>k G. G[k := nonlinear_power_sustraction_bin snr_influence
                            (spectrum ! k) (noise_thresholds ! k)])
          [0..<Suc fft_size_2] Gk"

definition power_sustraction_bin :: "real \<Rightarrow> real \<Rightarrow> real option" where
  "power_sustraction_bin s n =
     (if n > FLT_MIN then
        (if s > n then fdiv (float_round (s - n)) s else Some 0)
      else Some 1)"

definition power_sustraction ::
  "nat \<Rightarrow> real list \<Rightarrow> real list \<Rightarrow> real option list \<Rightarrow> real option list" where
  "power_sustraction fft_size_2 spectrum noise_thresholds Gk =
     fold (\<lambda>k G. G[k := power_sustraction_bin (spectrum ! k) (noise_thresholds ! k)])
          [0..<Suc fft_size_2] Gk"

definition spectral_gating_bin :: "real \<Rightarrow> real \<Rightarrow> real option" where
  "spectral_gating_bin s n =
     (if n > FLT_MIN then
        (if s \<ge> n then Some 1 else Some 0)
      else Some 1)"

definition spectral_gating ::
  "nat \<Rightarrow> real list \<Rightarrow> real list \<Rightarrow> real option list \<Rightarrow> real option list" where
  "spectral_gating fft_size_2 spectrum noise_thresholds Gk =
     fold (\<lambda>k G. G[k := spectral_gating_bin (spectrum ! k) (noise_thresholds ! k)])
          [0..<Suc fft_size_2] Gk"

definition wideband_sums :: "nat \<Rightarrow> real list \<Rightarrow> real list \<Rightarrow> real \<times> real" where
  \<comment> \<open>the first loop of \<^verbatim>\<open>wideband_gating\<close>: \<^verbatim>\<open>x_value\<close> and \<^verbatim>\<open>n_value\<close>, as exact sums\<close>
  "wideband_sums fft_size_2 spectrum noise_thresholds =
     fold (\<lambda>k (x_value, n_value). (x_value + spectrum ! k, n_value + noise_thresholds ! k))
          [0..<Suc fft_size_2] (0, 0)"

definition wideband_gating_from ::
  "real \<Rightarrow> real \<Rightarrow> nat \<Rightarrow> real option list \<Rightarrow> real option list" where
  \<comment> \<open>the second loop of \<^verbatim>\<open>wideband_gating\<close>, from the values that the first loop leaves in
      \<^verbatim>\<open>x_value\<close> and \<^verbatim>\<open>n_value\<close>\<close>
  "wideband_gating_from x_value n_value fft_size_2 Gk =
     fold (\<lambda>k G. G[k := (if n_value > FLT_MIN then
                            (if x_value \<ge> n_value then Some 1 else Some 0)
                          else Some 1)])
          [0..<Suc fft_size_2] Gk"

definition wideband_gating ::
  "nat \<Rightarrow> real list \<Rightarrow> real list \<Rightarrow> real option list \<Rightarrow> real option list" where
  "wideband_gating fft_size_2 spectrum noise_thresholds Gk =
     (let (x_value, n_value) = wideband_sums fft_size_2 spectrum noise_thresholds
      in wideband_gating_from x_value n_value fft_size_2 Gk)"

definition clamp_gain_directly :: "real \<Rightarrow> real" where
  \<comment> \<open>the alternative the spec compares the clamp with: the intermediate gain clamped
      to the unit interval directly\<close>
  "clamp_gain_directly gain = (if gain < 0 then 0 else if gain > 1 then 1 else gain)"

section \<open>Transient detector\<close>






section \<open>Frame denoiser\<close>

record NoiseProfile =
  noise_profile_size :: "32 word"
  noise_profile :: "real list"

record DenoiseParameters =
  enable :: bool
  learn_noise :: bool
  residual_listen :: bool
  reduction_amount :: real
  release_time :: real
  masking_ceiling_limit :: real
  whitening_factor :: real
  transient_threshold :: real
  noise_rescale :: real

text \<open>
  The gain estimator and the noise estimator are separate modules behind opaque pointers.
  The denoiser is modelled over any implementation of them: \<open>'g\<close> and \<open>'n\<close> are their
  states, and a run returns the new state with the array it fills (the gain spectrum, the
  noise spectrum).
\<close>

record ('g, 'n) estimators =
  gain_estimation_initialize :: "nat \<Rightarrow> int \<Rightarrow> nat \<Rightarrow> 'g"
  noise_estimation_initialize :: "nat \<Rightarrow> 'n"
  gain_estimation_run ::
    "'g \<Rightarrow> real list \<Rightarrow> real list \<Rightarrow> real list \<Rightarrow> real \<Rightarrow> real \<Rightarrow> real \<Rightarrow> real \<Rightarrow> 'g \<times> real list"
  noise_estimation_run :: "'n \<Rightarrow> real list \<Rightarrow> real list \<Rightarrow> 'n \<times> real list"
  is_noise_estimation_available :: "'n \<Rightarrow> bool"

text \<open>
  \<^verbatim>\<open>struct FFTDenoiser\<close>.  The noise profile is an object of the host reached through a
  pointer, and the parameters are pointers to the host's controls; both are null after
  construction, which is \<open>None\<close> here.
\<close>

record ('g, 'n) FFTDenoiser =
  fft_size :: nat
  half_fft_size :: nat
  samp_rate :: int
  hop :: nat
  fft_spectrum :: "real list"
  processed_fft_spectrum :: "real list"
  tau :: real
  wet_dry_target :: real
  wet_dry :: real
  gain_spectrum :: "real list"
  residual_spectrum :: "real list"
  denoised_spectrum :: "real list"
  whitened_residual_spectrum :: "real list"
  power_spectrum :: "real list"
  phase_spectrum :: "real list"
  magnitude_spectrum :: "real list"
  gain_estimation :: 'g
  noise_estimation :: 'n
  noise_profile_ptr :: "NoiseProfile option"
  denoise_parameters :: "DenoiseParameters option"
  residual_max_spectrum :: "real list"
  max_decay_rate :: real
  whitening_window_count :: nat

definition WHITENING_DECAY_RATE :: real where
  "WHITENING_DECAY_RATE = 1000"

definition WHITENING_FLOOR :: real where
  "WHITENING_FLOOR = 2 / 100"

definition atan2f :: "real \<Rightarrow> real \<Rightarrow> real" where
  \<comment> \<open>the C library's two-argument arctangent\<close>
  "atan2f y x =
     (if x > 0 then arctan (y / x)
      else if x < 0 then (if y \<ge> 0 then arctan (y / x) + pi else arctan (y / x) - pi)
      else if y > 0 then pi / 2
      else if y < 0 then - (pi / 2)
      else 0)"

definition fft_denoiser_initialize ::
  "('g, 'n) estimators \<Rightarrow> int \<Rightarrow> nat \<Rightarrow> nat \<Rightarrow> ('g, 'n) FFTDenoiser option" where
  \<comment> \<open>\<^verbatim>\<open>calloc\<close> zero-fills every buffer; the integer division by \<^verbatim>\<open>overlap_factor\<close> traps
      when that is 0.  The argument of \<^verbatim>\<open>expf\<close> in \<^verbatim>\<open>tau\<close> is computed in double precision
      (\<^verbatim>\<open>M_PI\<close> is a \<^verbatim>\<open>double\<close>), read here as the exact quotient, and converted to binary32;
      \<^verbatim>\<open>expf\<close> is read as the correctly rounded exponential.\<close>
  "fft_denoiser_initialize E samp_rate' fft_size' overlap_factor =
     (if overlap_factor = 0 then None
      else
        let half = fft_size' div 2;
            hop' = fft_size' div overlap_factor
        in Some
          \<lparr>fft_size = fft_size',
           half_fft_size = half,
           samp_rate = samp_rate',
           hop = hop',
           fft_spectrum = replicate fft_size' 0,
           processed_fft_spectrum = replicate (half + 1) 0,
           tau = float_round (1 - float_round (exp (float_round
                   (- 2 * pi * 25 * 64 / real_of_int samp_rate')))),
           wet_dry_target = 0,
           wet_dry = 0,
           gain_spectrum = replicate (half + 1) 0,
           residual_spectrum = replicate (half + 1) 0,
           denoised_spectrum = replicate (half + 1) 0,
           whitened_residual_spectrum = replicate (half + 1) 0,
           power_spectrum = replicate (half + 1) 0,
           phase_spectrum = replicate (half + 1) 0,
           magnitude_spectrum = replicate (half + 1) 0,
           gain_estimation = gain_estimation_initialize E fft_size' samp_rate' hop',
           noise_estimation = noise_estimation_initialize E fft_size',
           noise_profile_ptr = None,
           denoise_parameters = None,
           residual_max_spectrum = replicate (half + 1) 0,
           max_decay_rate =
             exp (- 1000 / ((WHITENING_DECAY_RATE * real_of_int samp_rate') / real hop')),
           whitening_window_count = 0\<rparr>)"

definition load_denoise_parameters ::
  "('g, 'n) FFTDenoiser \<Rightarrow> DenoiseParameters \<Rightarrow> ('g, 'n) FFTDenoiser" where
  "load_denoise_parameters self new_parameters = self\<lparr>denoise_parameters := Some new_parameters\<rparr>"

definition load_noise_profile ::
  "('g, 'n) FFTDenoiser \<Rightarrow> NoiseProfile \<Rightarrow> ('g, 'n) FFTDenoiser" where
  "load_noise_profile self profile = self\<lparr>noise_profile_ptr := Some profile\<rparr>"

definition get_info_from_bins ::
  "real list \<times> real list \<times> real list \<Rightarrow> nat \<Rightarrow> nat \<Rightarrow> real list
   \<Rightarrow> real list \<times> real list \<times> real list" where
  \<comment> \<open>the three output arrays are passed and returned as a triple\<close>
  "get_info_from_bins out half_fft_size' fft_size' fft_buffer =
     (let (fft_power, fft_magnitude, fft_phase) = out;
          real_bin = fft_buffer ! 0
      in fold (\<lambda>k (fft_power, fft_magnitude, fft_phase).
                 let real_bin = fft_buffer ! k;
                     imag_bin = fft_buffer ! (fft_size' - k);
                     (power, magnitude, phase) =
                       (if k < half_fft_size'
                        then (real_bin * real_bin + imag_bin * imag_bin,
                              sqrt (real_bin * real_bin + imag_bin * imag_bin),
                              atan2f real_bin imag_bin)
                        else (real_bin * real_bin, real_bin, atan2f real_bin 0))
                 in (fft_power[k := power], fft_magnitude[k := magnitude], fft_phase[k := phase]))
              [1..<Suc half_fft_size']
              (fft_power[0 := real_bin * real_bin],
               fft_magnitude[0 := real_bin],
               fft_phase[0 := atan2f real_bin 0]))"

definition is_empty :: "real list \<Rightarrow> nat \<Rightarrow> bool" where
  \<comment> \<open>\<^verbatim>\<open>for (k = 1; k <= N; k++) if (spectrum[k] > FLT_MIN) return false;\<close>\<close>
  "is_empty spectrum N = list_all (\<lambda>k. \<not> spectrum ! k > FLT_MIN) [1..<Suc N]"

definition fft_denoiser_update_wetdry_target ::
  "('g, 'n) FFTDenoiser \<Rightarrow> bool \<Rightarrow> ('g, 'n) FFTDenoiser" where
  \<comment> \<open>\<^verbatim>\<open>self->wet_dry += self->tau * (self->wet_dry_target - self->wet_dry) + FLT_MIN\<close>:
      a difference, a product and two sums, each rounded to binary32\<close>
  "fft_denoiser_update_wetdry_target self enable' =
     (let self = self\<lparr>wet_dry_target := (if enable' then 1 else 0)\<rparr>
      in self\<lparr>wet_dry :=
           float_round (wet_dry self
             + float_round (float_round (tau self * float_round (wet_dry_target self - wet_dry self))
                            + FLT_MIN))\<rparr>)"

definition fft_denoiser_soft_bypass :: "('g, 'n) FFTDenoiser \<Rightarrow> ('g, 'n) FFTDenoiser" where
  "fft_denoiser_soft_bypass self =
     self\<lparr>processed_fft_spectrum :=
       fold (\<lambda>k processed.
               processed[k := (1 - wet_dry self) * fft_spectrum self ! k
                              + processed ! k * wet_dry self])
            [1..<Suc (half_fft_size self)] (processed_fft_spectrum self)\<rparr>"

definition residual_spectrum_whitening ::
  "('g, 'n) FFTDenoiser \<Rightarrow> real \<Rightarrow> ('g, 'n) FFTDenoiser" where
  "residual_spectrum_whitening self whitening_factor' =
     (let self = self\<lparr>whitening_window_count := whitening_window_count self + 1\<rparr>;
          self = self\<lparr>residual_max_spectrum :=
                   fold (\<lambda>k residual_max.
                           residual_max[k :=
                             (if whitening_window_count self > 1
                              then max (max (residual_spectrum self ! k) WHITENING_FLOOR)
                                       (residual_max ! k * max_decay_rate self)
                              else max (residual_spectrum self ! k) WHITENING_FLOOR)])
                        [1..<Suc (half_fft_size self)] (residual_max_spectrum self)\<rparr>;
          (whitened, residual) =
             fold (\<lambda>k (whitened, residual).
                     if residual ! k > FLT_MIN
                     then let w = residual ! k / residual_max_spectrum self ! k
                          in (whitened[k := w],
                              residual[k := (1 - whitening_factor') * residual ! k
                                            + whitening_factor' * w])
                     else (whitened, residual))
                  [1..<Suc (half_fft_size self)]
                  (whitened_residual_spectrum self, residual_spectrum self)
      in self\<lparr>whitened_residual_spectrum := whitened, residual_spectrum := residual\<rparr>)"

definition get_denoised_spectrum :: "('g, 'n) FFTDenoiser \<Rightarrow> ('g, 'n) FFTDenoiser" where
  "get_denoised_spectrum self =
     self\<lparr>denoised_spectrum :=
       fold (\<lambda>k denoised. denoised[k := fft_spectrum self ! k * gain_spectrum self ! k])
            [1..<Suc (half_fft_size self)] (denoised_spectrum self)\<rparr>"

definition get_residual_spectrum :: "('g, 'n) FFTDenoiser \<Rightarrow> real \<Rightarrow> ('g, 'n) FFTDenoiser" where
  "get_residual_spectrum self whitening_factor' =
     (let self = self\<lparr>residual_spectrum :=
                   fold (\<lambda>k residual.
                           residual[k := fft_spectrum self ! k - denoised_spectrum self ! k])
                        [1..<Suc (half_fft_size self)] (residual_spectrum self)\<rparr>
      in if whitening_factor' > 0 then residual_spectrum_whitening self whitening_factor'
         else self)"

definition get_final_spectrum ::
  "('g, 'n) FFTDenoiser \<Rightarrow> bool \<Rightarrow> real \<Rightarrow> ('g, 'n) FFTDenoiser" where
  "get_final_spectrum self residual_listen' reduction_amount' =
     (if residual_listen'
      then self\<lparr>processed_fft_spectrum :=
             fold (\<lambda>k processed. processed[k := residual_spectrum self ! k])
                  [1..<Suc (half_fft_size self)] (processed_fft_spectrum self)\<rparr>
      else self\<lparr>processed_fft_spectrum :=
             fold (\<lambda>k processed.
                     processed[k := denoised_spectrum self ! k
                                    + residual_spectrum self ! k * reduction_amount'])
                  [1..<Suc (half_fft_size self)] (processed_fft_spectrum self)\<rparr>)"

definition from_db_to_cv :: "real \<Rightarrow> real" where
  "from_db_to_cv gain_db = exp (gain_db / 10 * ln 10)"

text \<open>
  \<^verbatim>\<open>fft_denoiser_run\<close> is modelled in three parts, in the order of its body.  The first
  updates the wet/dry state, copies the frame into the denoiser's buffer and analyses the
  bins.  The second is the guarded estimation and suppression: the state it returns is the
  one on which \<^verbatim>\<open>fft_denoiser_soft_bypass\<close> is called.  The third is the soft bypass and
  the copy into the caller's frame.
\<close>

definition fft_denoiser_analyse ::
  "('g, 'n) FFTDenoiser \<Rightarrow> bool \<Rightarrow> real list \<Rightarrow> ('g, 'n) FFTDenoiser" where
  "fft_denoiser_analyse self enable' frame =
     (let self = fft_denoiser_update_wetdry_target self enable';
          self = self\<lparr>fft_spectrum := take (fft_size self) frame\<rparr>;
          (power, magnitude, phase) =
             get_info_from_bins
               (power_spectrum self, magnitude_spectrum self, phase_spectrum self)
               (half_fft_size self) (fft_size self) (fft_spectrum self)
      in self\<lparr>power_spectrum := power, magnitude_spectrum := magnitude,
               phase_spectrum := phase\<rparr>)"

definition fft_denoiser_stages ::
  "('g, 'n) estimators \<Rightarrow> ('g, 'n) FFTDenoiser \<Rightarrow> DenoiseParameters \<Rightarrow> NoiseProfile
   \<Rightarrow> real list \<Rightarrow> ('g, 'n) FFTDenoiser" where
  "fft_denoiser_stages E self p profile frame =
     (let enable = enable p;
          learn_noise = learn_noise p;
          residual_listen = residual_listen p;
          transient_protection = transient_threshold p;
          masking = masking_ceiling_limit p / 100;
          release = release_time p;
          noise_rescale = noise_rescale p;
          reduction_amount = from_db_to_cv (reduction_amount p * - 1);
          whitening_factor = whitening_factor p;
          noise_spectrum = noise_profile profile;
          self = fft_denoiser_analyse self enable frame
      in if \<not> is_empty (power_spectrum self) (half_fft_size self) then
           (if learn_noise then
              (let (estimator, noise_spectrum') =
                     noise_estimation_run E (noise_estimation self) noise_spectrum
                       (power_spectrum self)
               in self\<lparr>noise_estimation := estimator,
                       noise_profile_ptr := Some (profile\<lparr>noise_profile := noise_spectrum'\<rparr>)\<rparr>)
            else if is_noise_estimation_available E (noise_estimation self) then
              (let (estimator, gain) =
                     gain_estimation_run E (gain_estimation self) (power_spectrum self)
                       noise_spectrum (gain_spectrum self)
                       transient_protection masking release noise_rescale;
                   self = self\<lparr>gain_estimation := estimator, gain_spectrum := gain\<rparr>;
                   self = get_denoised_spectrum self;
                   self = get_residual_spectrum self whitening_factor
               in get_final_spectrum self residual_listen reduction_amount)
            else self)
         else self)"

text \<open>
  The closing \<^verbatim>\<open>memcpy\<close> copies \<^verbatim>\<open>sizeof(float) * half_fft_size + 1\<close> bytes: the entries
  \<open>0\<close> to \<open>half_fft_size - 1\<close> whole, and one byte of entry \<open>half_fft_size\<close>.  A cell of the
  returned frame is a whole value, or \<open>First_byte p f\<close>: the bytes of \<open>f\<close> with the first
  one replaced by the first byte of \<open>p\<close>.
\<close>

datatype frame_cell = Float real | First_byte real real

definition copy_processed :: "real list \<Rightarrow> nat \<Rightarrow> real list \<Rightarrow> frame_cell list" where
  "copy_processed processed half frame =
     map Float (take half processed)
     @ (if half < length frame then [First_byte (processed ! half) (frame ! half)] else [])
     @ map Float (drop (Suc half) frame)"

definition fft_denoiser_run ::
  "('g, 'n) estimators \<Rightarrow> ('g, 'n) FFTDenoiser \<Rightarrow> real list
   \<Rightarrow> (('g, 'n) FFTDenoiser \<times> frame_cell list) option" where
  "fft_denoiser_run E self frame =
     (case denoise_parameters self of None \<Rightarrow> None
      | Some p \<Rightarrow>
        (case noise_profile_ptr self of None \<Rightarrow> None
         | Some profile \<Rightarrow>
           let self = fft_denoiser_soft_bypass (fft_denoiser_stages E self p profile frame)
           in Some (self,
                copy_processed (processed_fft_spectrum self) (half_fft_size self) frame)))"

inductive reachable :: "('g, 'n) estimators \<Rightarrow> ('g, 'n) FFTDenoiser \<Rightarrow> bool"
  for E :: "('g, 'n) estimators" where
  constructed:
    "fft_denoiser_initialize E rate n overlap_factor = Some self \<Longrightarrow> reachable E self"
| parameters_loaded:
    "reachable E self \<Longrightarrow> reachable E (load_denoise_parameters self p)"
| profile_loaded:
    "reachable E self \<Longrightarrow> reachable E (load_noise_profile self profile)"
| frame_run:
    "reachable E self \<Longrightarrow> fft_denoiser_run E self frame = Some (self', out)
     \<Longrightarrow> reachable E self'"

text \<open>
  What construction establishes and every call keeps: the buffers have
  \<open>half_fft_size + 1\<close> entries, and entry 0 of the processed, denoised and residual spectra
  is 0.
\<close>

definition fft_denoiser_inv :: "('g, 'n) FFTDenoiser \<Rightarrow> bool" where
  "fft_denoiser_inv self =
     (half_fft_size self = fft_size self div 2
      \<and> length (processed_fft_spectrum self) = half_fft_size self + 1
      \<and> length (denoised_spectrum self) = half_fft_size self + 1
      \<and> length (residual_spectrum self) = half_fft_size self + 1
      \<and> processed_fft_spectrum self ! 0 = 0
      \<and> denoised_spectrum self ! 0 = 0
      \<and> residual_spectrum self ! 0 = 0)"

text \<open>
  A concrete instance for the examples.  The state of each estimator counts its runs; the
  gain estimator answers one half at every bin, the noise estimator the magnitudes of the
  frame, and a noise profile is always available.
\<close>

definition example_estimators :: "(nat, nat) estimators" where
  "example_estimators =
     \<lparr>gain_estimation_initialize = (\<lambda>_ _ _. 0),
      noise_estimation_initialize = (\<lambda>_. 0),
      gain_estimation_run = (\<lambda>runs _ _ gain _ _ _ _. (Suc runs, map (\<lambda>_. 1 / 2) gain)),
      noise_estimation_run = (\<lambda>runs _ spectrum. (Suc runs, map sqrt spectrum)),
      is_noise_estimation_available = (\<lambda>_. True)\<rparr>"

definition example_parameters :: DenoiseParameters where
  "example_parameters =
     \<lparr>enable = False, learn_noise = False, residual_listen = False, reduction_amount = 10,
      release_time = 150, masking_ceiling_limit = 5, whitening_factor = 0,
      transient_threshold = 2, noise_rescale = 2\<rparr>"

definition example_profile :: NoiseProfile where
  "example_profile = \<lparr>noise_profile_size = 3, noise_profile = [0, 1, 1]\<rparr>"

definition example_denoiser :: "(nat, nat) FFTDenoiser" where
  \<comment> \<open>\<^verbatim>\<open>fft_denoiser_initialize(44100, 4, 4)\<close>, then the parameters and the profile loaded\<close>
  "example_denoiser =
     load_noise_profile
       (load_denoise_parameters (the (fft_denoiser_initialize example_estimators 44100 4 4))
          example_parameters)
       example_profile"

definition example_after_one_frame :: "(nat, nat) FFTDenoiser" where
  "example_after_one_frame =
     fst (the (fft_denoiser_run example_estimators example_denoiser [1, 0, 0, 0]))"

definition example_after_two_frames :: "(nat, nat) FFTDenoiser" where
  "example_after_two_frames =
     fst (the (fft_denoiser_run example_estimators example_after_one_frame [1, 0, 0, 0]))"

definition example_enabled :: "(nat, nat) FFTDenoiser" where
  \<comment> \<open>the example denoiser after one frame processed with the enable control on\<close>
  "example_enabled =
     fst (the (fft_denoiser_run example_estimators
                 (load_denoise_parameters example_denoiser (example_parameters\<lparr>enable := True\<rparr>))
                 [1, 0, 0, 0]))"

section \<open>Plugin state\<close>

text \<open>
  Saving and restoring go through the host's key-value store, which copies a given number
  of bytes from an address and later hands the same bytes back with their size and type.
  Values are byte lists here.  The layout is the one of a little-endian LP64 target:
  \<^verbatim>\<open>sizeof(int)\<close> is 4, a pointer has 8 bytes, and the header of an atom
  (\<^verbatim>\<open>sizeof(LV2_Atom)\<close>, skipped by \<^verbatim>\<open>LV2_ATOM_BODY\<close>) has 8 bytes.
\<close>

type_synonym byte = "8 word"

type_synonym LV2_URID = "32 word"

record PluginState =
  atom_Int :: LV2_URID
  atom_Vector :: LV2_URID
  property_fft_size :: LV2_URID
  property_saved_noise_profile :: LV2_URID

record state_value =
  value_bytes :: "byte list"
  value_type :: LV2_URID

type_synonym LV2_State = "LV2_URID \<rightharpoonup> state_value"

definition store :: "LV2_State \<Rightarrow> LV2_URID \<Rightarrow> byte list \<Rightarrow> nat \<Rightarrow> LV2_URID \<Rightarrow> LV2_State" where
  \<comment> \<open>the host's store function: it keeps the first \<open>n\<close> bytes found at the address\<close>
  "store handle key memory n type =
     handle(key \<mapsto> \<lparr>value_bytes = take n memory, value_type = type\<rparr>)"

definition retrieve :: "LV2_State \<Rightarrow> LV2_URID \<Rightarrow> state_value option" where
  \<comment> \<open>the host's retrieve function: exactly the data that was stored, or null\<close>
  "retrieve handle key = handle key"

definition int_bytes :: "32 word \<Rightarrow> byte list" where
  "int_bytes w = [ucast w, ucast (drop_bit 8 w), ucast (drop_bit 16 w), ucast (drop_bit 24 w)]"

definition bytes_int :: "byte list \<Rightarrow> 32 word" where
  "bytes_int bs =
     or (ucast (bs ! 0))
       (or (push_bit 8 (ucast (bs ! 1)))
         (or (push_bit 16 (ucast (bs ! 2))) (push_bit 24 (ucast (bs ! 3)))))"

definition pointer_bytes :: "64 word \<Rightarrow> byte list" where
  "pointer_bytes a = map (\<lambda>i. ucast (drop_bit (8 * i) a)) [0..<8]"

text \<open>
  A \<^verbatim>\<open>NoiseProfile\<close> object in memory: the size field, four bytes of padding and the
  address of the array of magnitudes.  The magnitudes themselves live at that address,
  outside the object.
\<close>

record NoiseProfile_object =
  object_size :: "32 word"
  object_padding :: "byte list"
  object_array_address :: "64 word"
  object_magnitudes :: "real list"

definition object_representation :: "NoiseProfile_object \<Rightarrow> byte list" where
  "object_representation obj =
     int_bytes (object_size obj) @ take 4 (object_padding obj)
     @ pointer_bytes (object_array_address obj)"

definition sizeof_int :: nat where
  "sizeof_int = 4"

definition sizeof_pointer :: nat where
  "sizeof_pointer = 8"

definition sizeof_LV2_Atom :: nat where
  "sizeof_LV2_Atom = 8"

definition plugin_state_savestate ::
  "PluginState \<Rightarrow> LV2_State \<Rightarrow> 32 word \<Rightarrow> NoiseProfile_object \<Rightarrow> LV2_State" where
  \<comment> \<open>the second call passes the address of the object and \<^verbatim>\<open>sizeof(noise_profile)\<close>, the
      size of the pointer\<close>
  "plugin_state_savestate self handle fft_size' obj =
     (let handle = store handle (property_fft_size self) (int_bytes fft_size') sizeof_int
                     (atom_Int self)
      in store handle (property_saved_noise_profile self) (object_representation obj)
           sizeof_pointer (atom_Vector self))"

definition plugin_state_restorestate ::
  "PluginState \<Rightarrow> LV2_State \<Rightarrow> (32 word \<times> byte list) option" where
  \<comment> \<open>\<open>None\<close> is the result \<^verbatim>\<open>false\<close>; the operands of \<^verbatim>\<open>||\<close> are tested in turn.  On \<^verbatim>\<open>true\<close> the result holds the restored
      \<^verbatim>\<open>fft_size\<close> and the bytes of the retrieved value that lie at the address given to
      \<^verbatim>\<open>set_noise_profile\<close>, which is \<^verbatim>\<open>LV2_ATOM_BODY\<close> of the value\<close>
  "plugin_state_restorestate self handle =
     (case retrieve handle (property_fft_size self) of
        None \<Rightarrow> None
      | Some fftsize \<Rightarrow>
          if value_type fftsize \<noteq> atom_Int self then None
          else
            (case retrieve handle (property_saved_noise_profile self) of
               None \<Rightarrow> None
             | Some saved_noise_profile \<Rightarrow>
                 if length (value_bytes saved_noise_profile) \<noteq> sizeof_pointer then None
                 else if value_type saved_noise_profile \<noteq> atom_Vector self then None
                 else Some (bytes_int (take sizeof_int (value_bytes fftsize)),
                            drop sizeof_LV2_Atom (value_bytes saved_noise_profile))))"

definition example_plugin_state :: PluginState where
  "example_plugin_state =
     \<lparr>atom_Int = 1, atom_Vector = 2, property_fft_size = 3,
      property_saved_noise_profile = 4\<rparr>"

definition example_object :: NoiseProfile_object where
  "example_object =
     \<lparr>object_size = 3, object_padding = [0, 0, 0, 0], object_array_address = 4096,
      object_magnitudes = [1, 2, 3]\<rparr>"

section \<open>Rounding to binary32\<close>

lemma round_even_of_int [simp]: "round_even (of_int n) = n"
  by (simp add: round_even_def)

lemma round_even_cases:
  "round_even y = \<lfloor>y\<rfloor> \<and> y - of_int \<lfloor>y\<rfloor> \<le> 1 / 2
   \<or> round_even y = \<lfloor>y\<rfloor> + 1 \<and> 1 / 2 \<le> y - of_int \<lfloor>y\<rfloor>"
  by (auto simp: round_even_def Let_def)

lemma round_even_error: "\<bar>of_int (round_even y) - y\<bar> \<le> 1 / 2"
proof -
  have "of_int \<lfloor>y\<rfloor> \<le> y" "y < of_int \<lfloor>y\<rfloor> + 1" by linarith+
  with round_even_cases [of y] show ?thesis by auto
qed

lemma round_even_near:
  assumes "\<bar>y - of_int n\<bar> < 1 / 2"
  shows "round_even y = n"
proof -
  have "\<bar>of_int (round_even y) - of_int n :: real\<bar> < 1"
    using round_even_error [of y] assms by linarith
  then have "\<bar>round_even y - n\<bar> < 1"
    by (metis of_int_1 of_int_abs of_int_diff of_int_less_iff)
  then show ?thesis by linarith
qed

lemma round_even_tie:
  assumes "y = of_int n + 1 / 2"
  shows "round_even y = (if even n then n else n + 1)"
proof -
  have "\<lfloor>y\<rfloor> = n" using assms by (simp add: floor_eq_iff)
  then show ?thesis using assms by (simp add: round_even_def Let_def)
qed

lemma round_even_mono:
  assumes "y \<le> z"
  shows "round_even y \<le> round_even z"
proof (cases "\<lfloor>y\<rfloor> = \<lfloor>z\<rfloor>")
  case True
  then show ?thesis
    using assms by (auto simp: round_even_def Let_def)
next
  case False
  then have "\<lfloor>y\<rfloor> + 1 \<le> \<lfloor>z\<rfloor>" using floor_mono [OF assms] by linarith
  moreover have "round_even y \<le> \<lfloor>y\<rfloor> + 1" "\<lfloor>z\<rfloor> \<le> round_even z"
    using round_even_cases [of y] round_even_cases [of z] by auto
  ultimately show ?thesis by linarith
qed

lemma round_even_minus: "round_even (- y) = - round_even y"
proof (cases "y = of_int \<lfloor>y\<rfloor>")
  case True
  then obtain n where "y = of_int n" ..
  then show ?thesis by (simp flip: of_int_minus)
next
  case False
  then have f: "\<lfloor>- y\<rfloor> = - \<lfloor>y\<rfloor> - 1"
    by (simp add: floor_eq_iff) linarith
  show ?thesis
    using False by (auto simp: round_even_def Let_def f)
qed

lemma two_powi_pos [simp]: "0 < (2::real) powi e"
  by (simp add: power_int_def)

lemma two_powr_int: "(2::real) powr real_of_int e = 2 powi e"
  by (rule powr_real_of_int') simp_all

lemma floor_log2_eq:
  assumes "x \<noteq> 0" and "2 powi e \<le> \<bar>x\<bar>" and "\<bar>x\<bar> < 2 powi (e + 1)"
  shows "\<lfloor>log 2 \<bar>x\<bar>\<rfloor> = e"
proof -
  have "(2::real) powr (real_of_int e + 1) = 2 powi (e + 1)"
    using two_powr_int [of "e + 1"] by simp
  then show ?thesis
    using assms floor_log_eq_powr_iff [of "\<bar>x\<bar>" 2 e] by (simp add: two_powr_int)
qed

lemma floor_log2_bounds:
  assumes "x \<noteq> 0"
  shows "2 powi \<lfloor>log 2 \<bar>x\<bar>\<rfloor> \<le> \<bar>x\<bar>" and "\<bar>x\<bar> < 2 powi (\<lfloor>log 2 \<bar>x\<bar>\<rfloor> + 1)"
proof -
  let ?e = "\<lfloor>log 2 \<bar>x\<bar>\<rfloor>"
  have p: "(2::real) powr (real_of_int ?e + 1) = 2 powi (?e + 1)"
    using two_powr_int [of "?e + 1"] by simp
  have "2 powr real_of_int ?e \<le> \<bar>x\<bar> \<and> \<bar>x\<bar> < 2 powr (real_of_int ?e + 1)"
    using assms floor_log_eq_powr_iff [of "\<bar>x\<bar>" 2 ?e] by simp
  then show "2 powi ?e \<le> \<bar>x\<bar>" "\<bar>x\<bar> < 2 powi (?e + 1)"
    using p by (simp_all add: two_powr_int)
qed

lemma float_exponent_normal:
  assumes "x \<noteq> 0" and "2 powi e \<le> \<bar>x\<bar>" and "\<bar>x\<bar> < 2 powi (e + 1)" and "- 126 \<le> e"
  shows "float_exponent x = e"
  using floor_log2_eq [OF assms(1,2,3)] assms(4) by (simp add: float_exponent_def)

lemma float_exponent_subnormal:
  assumes "x \<noteq> 0" and "\<bar>x\<bar> < 2 powi (- 126)"
  shows "float_exponent x = - 126"
proof -
  have "\<not> - 126 \<le> \<lfloor>log 2 \<bar>x\<bar>\<rfloor>"
  proof
    assume "- 126 \<le> \<lfloor>log 2 \<bar>x\<bar>\<rfloor>"
    then have "(2::real) powi (- 126) \<le> 2 powi \<lfloor>log 2 \<bar>x\<bar>\<rfloor>"
      by (intro power_int_increasing) simp_all
    with floor_log2_bounds(1) [OF assms(1)] assms(2) show False by linarith
  qed
  then show ?thesis by (simp add: float_exponent_def)
qed

lemma float_round_eval:
  assumes "x \<noteq> 0" and "2 powi e \<le> \<bar>x\<bar>" and "\<bar>x\<bar> < 2 powi (e + 1)" and "- 126 \<le> e"
    and "\<bar>x / 2 powi (e - 23) - of_int n\<bar> < 1 / 2"
  shows "float_round x = of_int n * 2 powi (e - 23)"
  using assms(1) round_even_near [OF assms(5)]
  by (simp add: float_round_def float_exponent_normal [OF assms(1,2,3,4)])

lemma float_round_eval_tie:
  assumes "x \<noteq> 0" and "2 powi e \<le> \<bar>x\<bar>" and "\<bar>x\<bar> < 2 powi (e + 1)" and "- 126 \<le> e"
    and "x / 2 powi (e - 23) = of_int n + 1 / 2"
  shows "float_round x = of_int (if even n then n else n + 1) * 2 powi (e - 23)"
  using assms(1) round_even_tie [OF assms(5)]
  by (simp add: float_round_def float_exponent_normal [OF assms(1,2,3,4)])

lemma float_round_eval_subnormal:
  assumes "x \<noteq> 0" and "\<bar>x\<bar> < 2 powi (- 126)"
    and "\<bar>x / 2 powi (- 149) - of_int n\<bar> < 1 / 2"
  shows "float_round x = of_int n * 2 powi (- 149)"
  using assms(1) round_even_near [OF assms(3)]
  by (simp add: float_round_def float_exponent_subnormal [OF assms(1,2)])

lemma float_round_0 [simp]: "float_round 0 = 0"
  by (simp add: float_round_def)

lemma two_powi_24: "(2::real) powi (e + 1) = 16777216 * 2 powi (e - 23)"
  using power_int_add [of "2::real" 24 "e - 23"] by (simp add: add.commute)

lemma two_powi_23: "(2::real) powi e = 8388608 * 2 powi (e - 23)"
  using power_int_add [of "2::real" 23 "e - 23"] by simp

lemma two_powi_mono: "a \<le> b \<Longrightarrow> (2::real) powi a \<le> 2 powi b"
  by (rule power_int_increasing) simp_all

lemma two_powi_less_D: "(2::real) powi a < 2 powi b \<Longrightarrow> a < b"
  using two_powi_mono [of b a] by (cases "a < b") simp_all

lemma float_exponent_minus [simp]: "float_exponent (- x) = float_exponent x"
  by (simp add: float_exponent_def)

lemma float_exponent_lower: "- 126 \<le> float_exponent x"
  by (simp add: float_exponent_def)

lemma float_exponent_bounds:
  assumes "x \<noteq> 0"
  shows "\<bar>x\<bar> < 2 powi (float_exponent x + 1)"
    and "- 126 < float_exponent x \<Longrightarrow> 2 powi (float_exponent x) \<le> \<bar>x\<bar>"
proof -
  have "\<lfloor>log 2 \<bar>x\<bar>\<rfloor> + 1 \<le> float_exponent x + 1"
    by (simp add: float_exponent_def)
  from two_powi_mono [OF this] floor_log2_bounds(2) [OF assms]
  show "\<bar>x\<bar> < 2 powi (float_exponent x + 1)" by linarith
  assume "- 126 < float_exponent x"
  then have "float_exponent x = \<lfloor>log 2 \<bar>x\<bar>\<rfloor>"
    by (simp add: float_exponent_def max_def split: if_splits)
  with floor_log2_bounds(1) [OF assms] show "2 powi (float_exponent x) \<le> \<bar>x\<bar>" by simp
qed

lemma float_exponent_le:
  assumes "x \<noteq> 0" and "\<bar>x\<bar> < 2 powi (e + 1)" and "- 126 \<le> e"
  shows "float_exponent x \<le> e"
proof -
  have "(2::real) powi \<lfloor>log 2 \<bar>x\<bar>\<rfloor> < 2 powi (e + 1)"
    using floor_log2_bounds(1) [OF assms(1)] assms(2) by linarith
  from two_powi_less_D [OF this] assms(3) show ?thesis
    by (simp add: float_exponent_def)
qed

lemma float_exponent_ge:
  assumes "2 powi e \<le> \<bar>x\<bar>"
  shows "e \<le> float_exponent x"
proof -
  have x: "x \<noteq> 0"
  proof
    assume "x = 0"
    with assms have "2 powi e \<le> (0::real)" by simp
    moreover have "0 < (2::real) powi e" by (rule two_powi_pos)
    ultimately show False by linarith
  qed
  have "(2::real) powi e < 2 powi (\<lfloor>log 2 \<bar>x\<bar>\<rfloor> + 1)"
    using floor_log2_bounds(2) [OF x] assms by linarith
  from two_powi_less_D [OF this] show ?thesis
    by (simp add: float_exponent_def)
qed

lemma float_round_minus: "float_round (- x) = - float_round x"
  by (simp add: float_round_def round_even_minus)

lemma round_even_nonneg: "0 \<le> y \<Longrightarrow> 0 \<le> round_even y"
  using round_even_mono [of 0 y] round_even_of_int [of 0] by simp

lemma float_round_nonneg: "0 \<le> x \<Longrightarrow> 0 \<le> float_round x"
  by (simp add: float_round_def round_even_nonneg)

lemma float_round_pos_bounds:
  assumes "0 < x"
  shows "float_round x \<le> 2 powi (float_exponent x + 1)"
    and "- 126 < float_exponent x \<Longrightarrow> 2 powi (float_exponent x) \<le> float_round x"
proof -
  let ?e = "float_exponent x"
  let ?q = "(2::real) powi (?e - 23)"
  have x: "x \<noteq> 0" "\<bar>x\<bar> = x" using assms by simp_all
  have r: "float_round x = of_int (round_even (x / ?q)) * ?q"
    using x by (simp add: float_round_def)
  have "x < 16777216 * ?q"
    using float_exponent_bounds(1) [OF x(1)] x(2) by (simp add: two_powi_24)
  then have "x / ?q \<le> of_int 16777216" by (simp add: pos_divide_le_eq)
  from round_even_mono [OF this] have "round_even (x / ?q) \<le> 16777216"
    by (simp only: round_even_of_int)
  then have "real_of_int (round_even (x / ?q)) \<le> 16777216" by linarith
  then have "real_of_int (round_even (x / ?q)) * ?q \<le> 16777216 * ?q"
    by (intro mult_right_mono) simp_all
  then show "float_round x \<le> 2 powi (?e + 1)" by (simp add: r two_powi_24)
  assume "- 126 < ?e"
  from float_exponent_bounds(2) [OF x(1) this] have "8388608 * ?q \<le> x"
    using x(2) two_powi_23 [of ?e] by simp
  then have "of_int 8388608 \<le> x / ?q" by (simp add: pos_le_divide_eq)
  from round_even_mono [OF this] have "8388608 \<le> round_even (x / ?q)"
    by (simp only: round_even_of_int)
  then have "8388608 \<le> real_of_int (round_even (x / ?q))" by linarith
  then have "8388608 * ?q \<le> real_of_int (round_even (x / ?q)) * ?q"
    by (intro mult_right_mono) simp_all
  then show "2 powi ?e \<le> float_round x" using two_powi_23 [of ?e] by (simp add: r)
qed

lemma float_exponent_mono:
  assumes "0 < x" and "x \<le> y"
  shows "float_exponent x \<le> float_exponent y"
proof -
  have "log 2 x \<le> log 2 y" using assms by simp
  then have "\<lfloor>log 2 x\<rfloor> \<le> \<lfloor>log 2 y\<rfloor>" by (rule floor_mono)
  then show ?thesis using assms by (simp add: float_exponent_def)
qed

lemma float_round_mono_pos:
  assumes "0 < x" and "x \<le> y"
  shows "float_round x \<le> float_round y"
proof (cases "float_exponent x = float_exponent y")
  case True
  let ?q = "(2::real) powi (float_exponent y - 23)"
  have "x / ?q \<le> y / ?q" using assms(2) by (simp add: divide_right_mono)
  from round_even_mono [OF this]
  have "real_of_int (round_even (x / ?q)) * ?q \<le> real_of_int (round_even (y / ?q)) * ?q"
    by (intro mult_right_mono) simp_all
  then show ?thesis using assms True by (simp add: float_round_def)
next
  case False
  have y: "0 < y" using assms by linarith
  from False float_exponent_mono [OF assms]
  have l: "float_exponent x + 1 \<le> float_exponent y" by linarith
  then have "- 126 < float_exponent y" using float_exponent_lower [of x] by linarith
  from float_round_pos_bounds(2) [OF y this] float_round_pos_bounds(1) [OF assms(1)]
    two_powi_mono [OF l]
  show ?thesis by linarith
qed

lemma float_round_mono:
  assumes "x \<le> y"
  shows "float_round x \<le> float_round y"
proof -
  consider "0 < x" | "x \<le> 0" "0 \<le> y" | "y < 0" by linarith
  then show ?thesis
  proof cases
    case 1
    then show ?thesis using assms by (rule float_round_mono_pos)
  next
    case 2
    then have "float_round x \<le> 0" "0 \<le> float_round y"
      using float_round_nonneg [of "- x"] float_round_nonneg [of y]
      by (simp_all add: float_round_minus)
    then show ?thesis by linarith
  next
    case 3
    then have "0 < - y" "- y \<le> - x" using assms by simp_all
    from float_round_mono_pos [OF this] show ?thesis by (simp add: float_round_minus)
  qed
qed

lemma float_round_multiple:
  assumes "x = of_int m * 2 powi j" and "float_exponent x - 23 \<le> j"
  shows "float_round x = x"
proof (cases "x = 0")
  case True
  then show ?thesis by simp
next
  case False
  define e where "e = float_exponent x"
  define k where "k = nat (j - (e - 23))"
  have j: "j = int k + (e - 23)" using assms(2) by (simp add: k_def e_def)
  have p: "(2::real) powi j = 2 ^ k * 2 powi (e - 23)"
    using power_int_add [of "2::real" "int k" "e - 23"] by (simp add: j)
  have x: "x = of_int (m * 2 ^ k) * 2 powi (e - 23)"
    by (simp add: assms(1) p)
  then have "x / 2 powi (e - 23) = of_int (m * 2 ^ k)"
    by simp
  then have "round_even (x / 2 powi (e - 23)) = m * 2 ^ k"
    by (simp only: round_even_of_int)
  then have "float_round x = of_int (m * 2 ^ k) * 2 powi (e - 23)"
    using False by (simp add: float_round_def e_def)
  with x show ?thesis by simp
qed

lemma float_round_idem_pos:
  assumes "0 < x"
  shows "float_round (float_round x) = float_round x"
proof -
  let ?e = "float_exponent x"
  let ?q = "(2::real) powi (?e - 23)"
  let ?n = "round_even (x / ?q)"
  have r: "float_round x = of_int ?n * ?q" using assms by (simp add: float_round_def)
  have up: "float_round x \<le> 2 powi (?e + 1)" by (rule float_round_pos_bounds(1) [OF assms])
  have nn: "0 \<le> float_round x" using assms by (simp add: float_round_nonneg)
  show ?thesis
  proof (cases "float_round x = 0 \<or> float_round x = 2 powi (?e + 1)")
    case True
    then show ?thesis
    proof
      assume "float_round x = 0" then show ?thesis by simp
    next
      assume t: "float_round x = 2 powi (?e + 1)"
      have "float_exponent (2 powi (?e + 1) :: real) = ?e + 1"
        using float_exponent_lower [of x]
        by (intro float_exponent_normal) (simp_all add: power_int_add)
      then have "float_round (2 powi (?e + 1)) = 2 powi (?e + 1)"
        using two_powi_23 [of "?e + 1"]
        by (intro float_round_multiple [where m = 8388608 and j = "?e + 1 - 23"]) simp_all
      then show ?thesis by (simp add: t)
    qed
  next
    case False
    then have "float_round x \<noteq> 0" "\<bar>float_round x\<bar> < 2 powi (?e + 1)"
      using up nn by simp_all
    from float_exponent_le [OF this float_exponent_lower]
    show ?thesis by (intro float_round_multiple [where m = ?n and j = "?e - 23"]) (simp_all add: r)
  qed
qed

lemma float_round_idem [simp]: "float_round (float_round x) = float_round x"
proof -
  consider "0 < x" | "x = 0" | "0 < - x" by linarith
  then show ?thesis
  proof cases
    case 1 then show ?thesis by (rule float_round_idem_pos)
  next
    case 2 then show ?thesis by simp
  next
    case 3
    from float_round_idem_pos [OF this] show ?thesis by (simp add: float_round_minus)
  qed
qed

lemma float_round_1 [simp]: "float_round 1 = 1"
  using float_round_multiple [of 1 1 0] float_exponent_le [of 1 0] by simp

lemma float_round_in_unit: "0 \<le> x \<Longrightarrow> x \<le> 1 \<Longrightarrow> 0 \<le> float_round x \<and> float_round x \<le> 1"
  using float_round_mono [of x 1] float_round_nonneg [of x] by simp

lemma float_round_of_nat:
  assumes "n \<le> 16777216"
  shows "float_round (real n) = real n"
proof (cases "n = 0 \<or> n = 16777216")
  case True
  then show ?thesis
  proof
    assume "n = 0" then show ?thesis by simp
  next
    assume n: "n = 16777216"
    have "float_exponent 16777216 \<le> 24"
      by (rule float_exponent_le) simp_all
    then show ?thesis
      unfolding n using float_round_multiple [of 16777216 8388608 1] by simp
  qed
next
  case False
  then have "real n \<noteq> 0" "\<bar>real n\<bar> < 2 powi (23 + 1)" using assms by simp_all
  then have "float_exponent (real n) \<le> 23"
    by (rule float_exponent_le) simp
  then show ?thesis
    using float_round_multiple [of "real n" "int n" 0] by simp
qed

lemma float_round_tie_above_1: "float_round (1 + 1 / 2 ^ 24) = 1"
  using float_round_eval_tie [of "1 + 1 / 2 ^ 24" 0 8388608]
  by (simp add: power_int_minus_divide)

lemma float_round_le_1:
  assumes "x \<le> 1 + 1 / 2 ^ 24"
  shows "float_round x \<le> 1"
proof -
  have "float_round x \<le> float_round (1 + 1 / 2 ^ 24)"
    using assms by (rule float_round_mono)
  then show ?thesis by (simp only: float_round_tie_above_1)
qed

lemma float_round_error_unit:
  assumes "\<bar>x\<bar> \<le> 1"
  shows "\<bar>float_round x - x\<bar> \<le> 1 / 2 ^ 25"
proof (cases "x = 0 \<or> \<bar>x\<bar> = 1")
  case True
  then have "x = 0 \<or> x = 1 \<or> x = - 1" by auto
  then have "float_round x = x"
    using float_round_minus [of 1] by auto
  then show ?thesis by simp
next
  case False
  define q where "q = (2::real) powi (float_exponent x - 23)"
  have x: "x \<noteq> 0" "\<bar>x\<bar> < 2 powi (- 1 + 1)" using False assms by simp_all
  then have "float_exponent x \<le> - 1" by (rule float_exponent_le) simp
  then have "float_exponent x - 23 \<le> - 24" by simp
  from two_powi_mono [OF this] have q: "q \<le> 1 / 2 ^ 24" "0 < q"
    by (simp_all add: q_def power_int_minus_divide)
  have "float_round x - x = (of_int (round_even (x / q)) - x / q) * q"
    using x(1) q(2) by (simp add: float_round_def q_def left_diff_distrib)
  then have "\<bar>float_round x - x\<bar> = \<bar>of_int (round_even (x / q)) - x / q\<bar> * q"
    using q(2) by (simp add: abs_mult)
  also have "\<dots> \<le> 1 / 2 * q"
    using round_even_error [of "x / q"] q(2) by (intro mult_right_mono) simp_all
  also have "\<dots> \<le> 1 / 2 ^ 25" using q(1) by simp
  finally show ?thesis .
qed

lemma float_round_absorb:
  assumes "float_round a = a" and "1 / 2 ^ 24 \<le> a"
  shows "float_round (a + 1 / 2 ^ 126) = a"
proof -
  define e where "e = float_exponent a"
  define q where "q = (2::real) powi (e - 23)"
  define n where "n = round_even (a / q)"
  have a0: "0 < a" "a \<noteq> 0" "\<bar>a\<bar> = a" using assms(2) by simp_all
  have "2 powi (- 24) \<le> \<bar>a\<bar>" using assms(2) by (simp add: power_int_minus_divide)
  then have e: "- 24 \<le> e" unfolding e_def by (rule float_exponent_ge)
  then have "- 47 \<le> e - 23" by simp
  from two_powi_mono [OF this] have q: "1 / 2 ^ 47 \<le> q" "0 < q"
    by (simp_all add: q_def power_int_minus_divide)
  have a: "a = of_int n * q"
    using assms(1) a0(2) by (simp add: float_round_def n_def q_def e_def)
  have lo: "2 powi e \<le> a"
    using float_exponent_bounds(2) [OF a0(2)] e a0(3) by (simp add: e_def)
  have "a < 16777216 * q"
    using float_exponent_bounds(1) [OF a0(2)] a0(3) by (simp add: e_def q_def two_powi_24)
  then have "real_of_int n < 16777216" using q(2) by (simp add: a)
  then have "n + 1 \<le> 16777216" by linarith
  then have "real_of_int (n + 1) \<le> 16777216" by linarith
  then have "real_of_int (n + 1) * q \<le> 16777216 * q"
    using q(2) by (intro mult_right_mono) simp_all
  then have hi: "a + q \<le> 2 powi (e + 1)"
    by (simp add: a two_powi_24 q_def distrib_right)
  have d: "(1::real) / 2 ^ 126 < q / 2"
  proof -
    have "(1::real) / 2 ^ 126 < 1 / 2 ^ 47 / 2" by simp
    also have "\<dots> \<le> q / 2" using q(1) by simp
    finally show ?thesis .
  qed
  have "(a + 1 / 2 ^ 126) / q - of_int n = (1 / 2 ^ 126) / q"
    using q(2) by (simp add: a add_divide_distrib)
  moreover have "(1 / 2 ^ 126) / q < 1 / 2"
    using d q(2) by (simp add: pos_divide_less_eq)
  ultimately have near: "\<bar>(a + 1 / 2 ^ 126) / 2 powi (e - 23) - of_int n\<bar> < 1 / 2"
    using q(2) by (simp add: q_def)
  have "float_round (a + 1 / 2 ^ 126) = of_int n * 2 powi (e - 23)"
  proof (rule float_round_eval [OF _ _ _ _ near])
    show "a + 1 / 2 ^ 126 \<noteq> 0" using a0(1) by simp
    show "2 powi e \<le> \<bar>a + 1 / 2 ^ 126\<bar>" using lo a0(1) by simp
    show "\<bar>a + 1 / 2 ^ 126\<bar> < 2 powi (e + 1)" using hi d a0(1) q(2) by simp
    show "- 126 \<le> e" using e by simp
  qed
  then show ?thesis by (simp add: a q_def)
qed

lemma float_round_dyadic:
  assumes "\<bar>m\<bar> < 16777216" and "- 149 \<le> j"
  shows "float_round (of_int m * 2 powi j) = of_int m * 2 powi j"
proof (cases "m = 0")
  case True
  then show ?thesis by simp
next
  case False
  define x where "x = real_of_int m * 2 powi j"
  have "\<bar>real_of_int m\<bar> < 16777216" using assms(1) by linarith
  then have "\<bar>real_of_int m\<bar> * 2 powi j < 16777216 * 2 powi j"
    by (intro mult_strict_right_mono) simp_all
  then have "\<bar>x\<bar> < 2 powi (j + 23 + 1)"
    using two_powi_24 [of "j + 23"] by (simp add: x_def abs_mult)
  moreover have "x \<noteq> 0" using False by (simp add: x_def)
  ultimately have "float_exponent x \<le> j + 23"
    using assms(2) by (intro float_exponent_le) simp_all
  then have "float_round x = x"
    by (intro float_round_multiple [where m = m and j = j]) (simp_all add: x_def)
  then show ?thesis by (simp add: x_def)
qed

lemma float_round_FLT_MIN [simp]: "float_round FLT_MIN = FLT_MIN"
  using float_round_dyadic [of 1 "- 126"] by (simp add: FLT_MIN_def power_int_minus_divide)

lemma float_round_absorb_FLT_MIN:
  "float_round a = a \<Longrightarrow> 1 / 2 ^ 24 \<le> a \<Longrightarrow> float_round (a + FLT_MIN) = a"
  unfolding FLT_MIN_def by (rule float_round_absorb)

lemma float_round_16777217: "float_round 16777217 = 16777216"
  using float_round_eval_tie [of 16777217 24 8388608] by simp
section \<open>Loops over bins\<close>

lemma length_fold_update:
  "length (fold (\<lambda>k G. G[k := f k G]) ks G) = length G"
  by (induction ks arbitrary: G) simp_all

lemma nth_fold_update:
  "distinct ks \<Longrightarrow> j < length G \<Longrightarrow>
   fold (\<lambda>k G. G[k := f k]) ks G ! j = (if j \<in> set ks then f j else G ! j)"
proof (induction ks arbitrary: G)
  case Nil
  then show ?case by simp
next
  case (Cons k ks)
  then show ?case by (auto simp: nth_list_update)
qed

lemma FLT_MIN_pos: "0 < FLT_MIN"
  by (simp add: FLT_MIN_def)


section \<open>Properties of the suppression rules\<close>

lemma wideband_sums_eq:
  "wideband_sums N sp nt = (\<Sum>i\<le>N. sp ! i, \<Sum>i\<le>N. nt ! i)"
proof -
  have "fold (\<lambda>k (x, n). (x + sp ! k, n + nt ! k)) [0..<m] (0, 0)
        = (\<Sum>i<m. sp ! i, \<Sum>i<m. nt ! i)" for m
    by (induction m) simp_all
  then show ?thesis
    by (simp only: wideband_sums_def lessThan_Suc_atMost)
qed

lemma nth_bins:
  "k \<le> N \<Longrightarrow> k < length G \<Longrightarrow> fold (\<lambda>k G. G[k := f k]) [0..<Suc N] G ! k = f k"
  by (simp add: nth_fold_update del: upt_Suc)

lemma nonlinear_gain_range:
  assumes "FLT_MIN < n" and "float_round s = s"
  shows "\<exists>g. nonlinear_gain snr s n = Some g \<and> 0 \<le> g \<and> g \<le> 1"
proof (cases "0 < s")
  case False
  then show ?thesis by (simp add: nonlinear_gain_def)
next
  case True
  have n: "0 < n" using assms(1) FLT_MIN_pos by linarith
  have q: "0 \<le> float_round (s / n)" using True n by (simp add: float_round_nonneg)
  then have q': "\<not> float_round (s / n) < 0" by linarith
  define alpha where
    "alpha = (if snr > 0 then float_round (snr + float_round (sqrt (float_round (s / n)))) else 1)"
  have a: "0 \<le> alpha"
    using q by (simp add: alpha_def float_round_nonneg add_nonneg_nonneg less_imp_le)
  define m where "m = MAX_macro (float_round (s - float_round (alpha * n))) 0"
  have g: "nonlinear_gain snr s n = Some (float_round (m / s))"
    using True n q' by (simp add: nonlinear_gain_def fdiv_def fsqrt_def alpha_def m_def)
  have "0 \<le> float_round (alpha * n)" using a n by (simp add: float_round_nonneg)
  then have "s - float_round (alpha * n) \<le> s" by simp
  from float_round_mono [OF this] have "float_round (s - float_round (alpha * n)) \<le> s"
    by (simp add: assms(2))
  then have "0 \<le> m" "m \<le> s" using True by (simp_all add: m_def MAX_macro_def)
  then have "0 \<le> m / s" "m / s \<le> 1" using True by simp_all
  with g show ?thesis by (simp add: float_round_in_unit)
qed

lemma power_sustraction_bin_range:
  assumes "float_round s = s"
  shows "\<exists>g. power_sustraction_bin s n = Some g \<and> 0 \<le> g \<and> g \<le> 1"
proof (cases "FLT_MIN < n \<and> n < s")
  case False
  then show ?thesis by (auto simp: power_sustraction_bin_def)
next
  case True
  then have s: "0 < s" using FLT_MIN_pos by linarith
  have "s - n \<le> s" using True FLT_MIN_pos by simp
  from float_round_mono [OF this] have "float_round (s - n) \<le> s" by (simp add: assms)
  moreover have "0 \<le> float_round (s - n)" using True by (simp add: float_round_nonneg)
  ultimately have "0 \<le> float_round (s - n) / s" "float_round (s - n) / s \<le> 1"
    using s by simp_all
  then show ?thesis
    using True s by (simp add: power_sustraction_bin_def fdiv_def float_round_in_unit)
qed

lemma avoid_invalid_gain_unit:
  assumes "0 \<le> g" and "g \<le> 1"
  shows "0 \<le> float_round (1 - g)" and "float_round (1 - g) \<le> 1"
    and "avoid_invalid_gain g = float_round (1 - float_round (1 - g))"
    and "0 \<le> avoid_invalid_gain g" and "avoid_invalid_gain g \<le> 1"
    and "\<bar>avoid_invalid_gain g - g\<bar> \<le> 1 / 2 ^ 24"
proof -
  show F: "0 \<le> float_round (1 - g)" "float_round (1 - g) \<le> 1"
    using assms float_round_in_unit [of "1 - g"] by simp_all
  then show G: "avoid_invalid_gain g = float_round (1 - float_round (1 - g))"
    by (simp add: avoid_invalid_gain_def Let_def)
  show "0 \<le> avoid_invalid_gain g" "avoid_invalid_gain g \<le> 1"
    using F float_round_in_unit [of "1 - float_round (1 - g)"] by (simp_all add: G)
  have "\<bar>float_round (1 - g) - (1 - g)\<bar> \<le> 1 / 2 ^ 25"
    using assms by (intro float_round_error_unit) simp
  moreover have "\<bar>float_round (1 - float_round (1 - g)) - (1 - float_round (1 - g))\<bar> \<le> 1 / 2 ^ 25"
    using F by (intro float_round_error_unit) simp
  moreover have "(1::real) / 2 ^ 25 + 1 / 2 ^ 25 = 1 / 2 ^ 24" by simp
  ultimately show "\<bar>avoid_invalid_gain g - g\<bar> \<le> 1 / 2 ^ 24"
    unfolding G by linarith
qed

lemma nonlinear_bin_range:
  assumes "float_round s = s"
  shows "\<exists>g. nonlinear_power_sustraction_bin snr s n = Some g \<and> 0 \<le> g \<and> g \<le> 1"
proof (cases "FLT_MIN < n")
  case True
  from nonlinear_gain_range [OF True assms, of snr] obtain g where
    "nonlinear_gain snr s n = Some g" "0 \<le> g" "g \<le> 1" by blast
  then show ?thesis using True
    by (simp add: nonlinear_power_sustraction_bin_def avoid_invalid_gain_unit(4,5))
next
  case False
  then show ?thesis by (simp add: nonlinear_power_sustraction_bin_def)
qed

text \<open>
  Claim C1, as amended.  In spectral gating, power subtraction and nonlinear power
  subtraction, every bin whose noise threshold is at or below \<open>FLT_MIN\<close> gets gain 1.
  Wideband gating compares the summed noise threshold with \<open>FLT_MIN\<close>: when the sum is
  at or below \<open>FLT_MIN\<close>, every bin gets gain 1.
\<close>

theorem gain_pass_through_per_bin_rules:
  assumes "k \<le> fft_size_2" and "k < length Gk" and "noise_thresholds ! k \<le> FLT_MIN"
  shows "nonlinear_power_sustraction snr_influence fft_size_2 spectrum noise_thresholds Gk ! k = Some 1
       \<and> power_sustraction fft_size_2 spectrum noise_thresholds Gk ! k = Some 1
       \<and> spectral_gating fft_size_2 spectrum noise_thresholds Gk ! k = Some 1
       \<and> ((\<Sum>i\<le>fft_size_2. noise_thresholds ! i) \<le> FLT_MIN \<longrightarrow>
            wideband_gating fft_size_2 spectrum noise_thresholds Gk ! k = Some 1)"
  using assms
  by (simp add: nonlinear_power_sustraction_def power_sustraction_def spectral_gating_def
      wideband_gating_def wideband_gating_from_def wideband_sums_eq nth_bins
      nonlinear_power_sustraction_bin_def power_sustraction_bin_def spectral_gating_bin_def
      del: upt_Suc)

text \<open>
  Claim C1 at bin 0 of a two-bin profile whose thresholds are all 0.
\<close>

theorem gain_pass_through_per_bin_rules_witness:
  "(0::nat) \<le> 1 \<and> 0 < length [Some 0, Some (0::real)] \<and> [0, 0::real] ! 0 \<le> FLT_MIN
   \<and> (\<Sum>i\<le>1. [0, 0::real] ! i) \<le> FLT_MIN
   \<and> nonlinear_power_sustraction 2 1 [3, 4] [0, 0] [Some 0, Some 0] ! 0 = Some 1
   \<and> power_sustraction 1 [3, 4] [0, 0] [Some 0, Some 0] ! 0 = Some 1
   \<and> spectral_gating 1 [3, 4] [0, 0] [Some 0, Some 0] ! 0 = Some 1
   \<and> wideband_gating 1 [3, 4] [0, 0] [Some 0, Some 0] ! 0 = Some 1"
  using gain_pass_through_per_bin_rules [of 0 1 "[Some 0, Some 0]" "[0, 0]" 2 "[3, 4]"]
  by (simp add: FLT_MIN_def)

text \<open>
  Claim C1 as stated fails for wideband gating: with thresholds \<open>[0, 1]\<close> and a silent
  spectrum, bin 0 has threshold 0 and still gets gain 0, because the decision is taken on
  the sums over all bins.
\<close>

theorem wideband_gating_pass_through_counterexample:
  "[0, 1::real] ! 0 \<le> FLT_MIN
   \<and> wideband_gating 1 [0, 0] [0, 1] [Some 1, Some 1] ! 0 = Some 0"
  by (simp add: wideband_gating_def wideband_gating_from_def wideband_sums_def FLT_MIN_def)


lemma nth_rules:
  assumes "k \<le> N" and "k < length Gk"
  shows "nonlinear_power_sustraction snr N sp nt Gk ! k
           = nonlinear_power_sustraction_bin snr (sp ! k) (nt ! k)"
    and "power_sustraction N sp nt Gk ! k = power_sustraction_bin (sp ! k) (nt ! k)"
    and "spectral_gating N sp nt Gk ! k = spectral_gating_bin (sp ! k) (nt ! k)"
    and "wideband_gating_from x n N Gk ! k = Some (if FLT_MIN < n \<and> x < n then 0 else 1)"
    and "wideband_gating N sp nt Gk ! k
           = wideband_gating_from (fst (wideband_sums N sp nt)) (snd (wideband_sums N sp nt))
               N Gk ! k"
  using assms
  by (simp_all add: nonlinear_power_sustraction_def power_sustraction_def spectral_gating_def
      wideband_gating_def wideband_gating_from_def nth_bins case_prod_unfold Let_def
      del: upt_Suc)

text \<open>
  Claim C2, as amended.  Take a bin whose signal value is a binary32 value.  For each of
  the four rules the gain at the bin is a valid number in the unit interval: no division
  by zero and no root of a negative number is ever evaluated.  In the three per-bin rules
  a signal value of 0 gives gain 0, or 1 when the bin's noise threshold is at or below
  \<open>FLT_MIN\<close>.  Wideband gating takes one decision for the whole frame, whatever the bin's
  own signal and threshold: every bin gets the same gain, and whatever values the first
  loop has accumulated, the gain is 0 when the accumulated threshold exceeds \<open>FLT_MIN\<close>
  and the accumulated signal is below it, and 1 otherwise.
\<close>

theorem gain_in_unit_interval:
  assumes "k \<le> fft_size_2" and "k < length Gk"
    and "float_round (spectrum ! k) = spectrum ! k"
  shows "(\<exists>g. nonlinear_power_sustraction snr_influence fft_size_2 spectrum noise_thresholds Gk ! k
                = Some g \<and> 0 \<le> g \<and> g \<le> 1)
       \<and> (\<exists>g. power_sustraction fft_size_2 spectrum noise_thresholds Gk ! k = Some g
                \<and> 0 \<le> g \<and> g \<le> 1)
       \<and> (\<exists>g. spectral_gating fft_size_2 spectrum noise_thresholds Gk ! k = Some g
                \<and> 0 \<le> g \<and> g \<le> 1)
       \<and> (\<exists>g. wideband_gating fft_size_2 spectrum noise_thresholds Gk ! k = Some g
                \<and> (g = 0 \<or> g = 1))
       \<and> (spectrum ! k = 0 \<longrightarrow>
            nonlinear_power_sustraction snr_influence fft_size_2 spectrum noise_thresholds Gk ! k
              = Some (if noise_thresholds ! k \<le> FLT_MIN then 1 else 0)
          \<and> power_sustraction fft_size_2 spectrum noise_thresholds Gk ! k
              = Some (if noise_thresholds ! k \<le> FLT_MIN then 1 else 0)
          \<and> spectral_gating fft_size_2 spectrum noise_thresholds Gk ! k
              = Some (if noise_thresholds ! k \<le> FLT_MIN then 1 else 0))
       \<and> (\<forall>j. j \<le> fft_size_2 \<and> j < length Gk \<longrightarrow>
            wideband_gating fft_size_2 spectrum noise_thresholds Gk ! j
              = wideband_gating fft_size_2 spectrum noise_thresholds Gk ! k)
       \<and> (\<forall>x_value n_value.
            wideband_gating_from x_value n_value fft_size_2 Gk ! k
              = Some (if FLT_MIN < n_value \<and> x_value < n_value then 0 else 1))"
proof -
  note nth = nth_rules [OF assms(1,2)]
  have zero: "power_sustraction_bin 0 n = Some (if n \<le> FLT_MIN then 1 else 0)"
    "spectral_gating_bin 0 n = Some (if n \<le> FLT_MIN then 1 else 0)"
    "nonlinear_power_sustraction_bin s' 0 n = Some (if n \<le> FLT_MIN then 1 else 0)" for n s'
    using FLT_MIN_pos
    by (simp_all add: power_sustraction_bin_def spectral_gating_bin_def
        nonlinear_power_sustraction_bin_def nonlinear_gain_def avoid_invalid_gain_def)
  have c1: "\<exists>g. nonlinear_power_sustraction snr_influence fft_size_2 spectrum noise_thresholds Gk ! k
                = Some g \<and> 0 \<le> g \<and> g \<le> 1"
    using nonlinear_bin_range [OF assms(3)] by (simp only: nth)
  have c2: "\<exists>g. power_sustraction fft_size_2 spectrum noise_thresholds Gk ! k = Some g
                \<and> 0 \<le> g \<and> g \<le> 1"
    using power_sustraction_bin_range [OF assms(3)] by (simp only: nth)
  have c3: "\<exists>g. spectral_gating fft_size_2 spectrum noise_thresholds Gk ! k = Some g
                \<and> 0 \<le> g \<and> g \<le> 1"
    by (simp add: nth spectral_gating_bin_def)
  have c4: "\<exists>g. wideband_gating fft_size_2 spectrum noise_thresholds Gk ! k = Some g
                \<and> (g = 0 \<or> g = 1)"
    by (simp add: nth)
  have c5: "spectrum ! k = 0 \<longrightarrow>
            nonlinear_power_sustraction snr_influence fft_size_2 spectrum noise_thresholds Gk ! k
              = Some (if noise_thresholds ! k \<le> FLT_MIN then 1 else 0)
          \<and> power_sustraction fft_size_2 spectrum noise_thresholds Gk ! k
              = Some (if noise_thresholds ! k \<le> FLT_MIN then 1 else 0)
          \<and> spectral_gating fft_size_2 spectrum noise_thresholds Gk ! k
              = Some (if noise_thresholds ! k \<le> FLT_MIN then 1 else 0)"
    by (simp add: nth zero)
  have c6: "\<forall>j. j \<le> fft_size_2 \<and> j < length Gk \<longrightarrow>
            wideband_gating fft_size_2 spectrum noise_thresholds Gk ! j
              = wideband_gating fft_size_2 spectrum noise_thresholds Gk ! k"
    by (simp add: nth nth_rules(4,5))
  have c7: "\<forall>x_value n_value.
            wideband_gating_from x_value n_value fft_size_2 Gk ! k
              = Some (if FLT_MIN < n_value \<and> x_value < n_value then 0 else 1)"
    by (simp add: nth)
  from c1 c2 c3 c4 c5 c6 c7 show ?thesis by (intro conjI)
qed

text \<open>
  Claim C2 at bin 0 of the spectrum \<open>[0, 16777216, 1, 1]\<close> with thresholds
  \<open>[16777218, 0, 0, 0]\<close>.  Accumulated in binary32 the signals give \<open>16777216\<close>, since
  \<open>16777216 + 1\<close> rounds back to \<open>16777216\<close>; that is below the accumulated threshold
  \<open>16777218\<close>, and for these two values the gain of wideband gating is 0.
\<close>

theorem gain_in_unit_interval_witness:
  "(0::nat) \<le> 3 \<and> 0 < length [Some 0, Some 0, Some 0, Some (0::real)]
   \<and> float_round ([0, 16777216, 1, 1::real] ! 0) = [0, 16777216, 1, 1::real] ! 0
   \<and> [0, 16777216, 1, 1::real] ! 0 = 0
   \<and> nonlinear_power_sustraction 2 3 [0, 16777216, 1, 1] [16777218, 0, 0, 0]
         [Some 0, Some 0, Some 0, Some 0] ! 0 = Some 0
   \<and> power_sustraction 3 [0, 16777216, 1, 1] [16777218, 0, 0, 0]
         [Some 0, Some 0, Some 0, Some 0] ! 0 = Some 0
   \<and> spectral_gating 3 [0, 16777216, 1, 1] [16777218, 0, 0, 0]
         [Some 0, Some 0, Some 0, Some 0] ! 0 = Some 0
   \<and> wideband_gating 3 [0, 16777216, 1, 1] [16777218, 0, 0, 0]
         [Some 0, Some 0, Some 0, Some 0] ! 3
       = wideband_gating 3 [0, 16777216, 1, 1] [16777218, 0, 0, 0]
           [Some 0, Some 0, Some 0, Some 0] ! 0
   \<and> float_round (float_round (float_round (float_round (0 + 0) + 16777216) + 1) + 1) = 16777216
   \<and> float_round (float_round (float_round (float_round (0 + 16777218) + 0) + 0) + 0) = 16777218
   \<and> wideband_gating_from 16777216 16777218 3 [Some 0, Some 0, Some 0, Some 0] ! 0 = Some 0"
proof -
  let ?sp = "[0, 16777216, 1, 1::real]"
  let ?nt = "[16777218, 0, 0, 0::real]"
  let ?Gk = "[Some 0, Some 0, Some 0, Some (0::real)]"
  have h: "(0::nat) \<le> 3" "0 < length ?Gk" "float_round (?sp ! 0) = ?sp ! 0"
    by simp_all
  have z: "?sp ! 0 = 0" "\<not> ?nt ! 0 \<le> FLT_MIN"
    by (simp_all add: FLT_MIN_def)
  note t = gain_in_unit_interval [OF h, of 2 ?nt]
  note t4 = t [THEN conjunct2, THEN conjunct2, THEN conjunct2, THEN conjunct2]
  from t4 [THEN conjunct1] have "?sp ! 0 = 0 \<longrightarrow>
      nonlinear_power_sustraction 2 3 ?sp ?nt ?Gk ! 0
        = Some (if ?nt ! 0 \<le> FLT_MIN then 1 else 0)
      \<and> power_sustraction 3 ?sp ?nt ?Gk ! 0 = Some (if ?nt ! 0 \<le> FLT_MIN then 1 else 0)
      \<and> spectral_gating 3 ?sp ?nt ?Gk ! 0 = Some (if ?nt ! 0 \<le> FLT_MIN then 1 else 0)" .
  with z have a: "nonlinear_power_sustraction 2 3 ?sp ?nt ?Gk ! 0 = Some 0"
    "power_sustraction 3 ?sp ?nt ?Gk ! 0 = Some 0"
    "spectral_gating 3 ?sp ?nt ?Gk ! 0 = Some 0"
    by simp_all
  from t4 [THEN conjunct2, THEN conjunct1]
  have "\<forall>j. j \<le> 3 \<and> j < length ?Gk \<longrightarrow>
      wideband_gating 3 ?sp ?nt ?Gk ! j = wideband_gating 3 ?sp ?nt ?Gk ! 0" .
  from this [THEN spec, of 3]
  have u: "wideband_gating 3 ?sp ?nt ?Gk ! 3 = wideband_gating 3 ?sp ?nt ?Gk ! 0"
    by simp
  have v: "float_round 16777216 = 16777216"
    using float_round_of_nat [of 16777216] by simp
  have "float_round 16777218 = 16777218"
    using float_round_dyadic [of 8388609 1] by simp
  then have acc: "float_round (float_round (float_round (float_round (0 + 0) + 16777216) + 1) + 1)
      = 16777216"
    "float_round (float_round (float_round (float_round (0 + 16777218) + 0) + 0) + 0) = 16777218"
    by (simp_all add: v float_round_16777217)
  note t6 = t4 [THEN conjunct2, THEN conjunct2]
  from t6 [THEN spec, of 16777216, THEN spec, of 16777218]
  have f: "wideband_gating_from 16777216 16777218 3 ?Gk ! 0 = Some 0"
    by (simp add: FLT_MIN_def)
  from h z(1) a u acc f show ?thesis by (intro conjI)
qed

text \<open>
  Claim C2 as stated fails for wideband gating: bin 0 has signal 0 and a noise threshold
  1 above \<open>FLT_MIN\<close>, and its gain is 1, because the summed signal 5 reaches the summed
  threshold 2.
\<close>

theorem wideband_gating_zero_signal_counterexample:
  "[0, 5::real] ! 0 = 0 \<and> FLT_MIN < [1, 1::real] ! 0
   \<and> wideband_gating 1 [0, 5] [1, 1] [Some 0, Some 0] ! 0 = Some 1"
  by (simp add: wideband_gating_def wideband_gating_from_def wideband_sums_def FLT_MIN_def)

text \<open>
  Claim C8, as amended.  In nonlinear power subtraction, at a bin whose noise threshold
  exceeds \<open>FLT_MIN\<close> and whose signal value is a binary32 value, the intermediate gain is
  a valid number in the unit interval, so \<open>Fk = 1 - gain\<close> triggers neither clamp branch
  and clamping the intermediate gain directly would leave it unchanged.  The stored gain
  is \<open>1 - Fk\<close> with both differences rounded to binary32; it lies within \<open>1 / 2 ^ 24\<close>
  of the intermediate gain.
\<close>

theorem nonlinear_clamp_redundant:
  assumes "k \<le> fft_size_2" and "k < length Gk" and "FLT_MIN < noise_thresholds ! k"
    and "float_round (spectrum ! k) = spectrum ! k"
  shows "\<exists>gain. nonlinear_gain snr_influence (spectrum ! k) (noise_thresholds ! k) = Some gain
           \<and> 0 \<le> gain \<and> gain \<le> 1
           \<and> \<not> float_round (1 - gain) < 0 \<and> \<not> float_round (1 - gain) > 1
           \<and> clamp_gain_directly gain = gain
           \<and> nonlinear_power_sustraction snr_influence fft_size_2 spectrum noise_thresholds Gk ! k
               = Some (float_round (1 - float_round (1 - gain)))
           \<and> \<bar>float_round (1 - float_round (1 - gain)) - gain\<bar> \<le> 1 / 2 ^ 24"
proof -
  from nonlinear_gain_range [OF assms(3,4)] obtain gain where
    g: "nonlinear_gain snr_influence (spectrum ! k) (noise_thresholds ! k) = Some gain"
       "0 \<le> gain" "gain \<le> 1" by blast
  note u = avoid_invalid_gain_unit [OF g(2,3)]
  have b: "nonlinear_power_sustraction snr_influence fft_size_2 spectrum noise_thresholds Gk ! k
             = Some (float_round (1 - float_round (1 - gain)))"
    using assms(3) g(1)
    by (simp add: nth_rules(1) [OF assms(1,2)] nonlinear_power_sustraction_bin_def u(3))
  have e: "\<bar>float_round (1 - float_round (1 - gain)) - gain\<bar> \<le> 1 / 2 ^ 24"
    using u(6) by (simp only: u(3))
  have f: "\<not> float_round (1 - gain) < 0" "\<not> float_round (1 - gain) > 1"
    using u(1,2) by simp_all
  have c: "clamp_gain_directly gain = gain"
    using g(2,3) by (simp add: clamp_gain_directly_def)
  from g f c b e show ?thesis by blast
qed

lemma float_round_small_values:
  "float_round 2 = 2" "float_round 3 = 3" "float_round 4 = 4" "float_round 6 = 6"
  "float_round (1 / 4) = 1 / 4" "float_round (3 / 4) = 3 / 4"
  using float_round_of_nat [of 2] float_round_of_nat [of 3] float_round_of_nat [of 4]
    float_round_of_nat [of 6] float_round_dyadic [of 1 "- 2"] float_round_dyadic [of 3 "- 2"]
  by (simp_all add: power_int_minus_divide)

text \<open>
  Claim C8 at signal 8, threshold 2 and SNR influence 1: every operation is exact, the
  gain is a quarter and it is stored unchanged.
\<close>

theorem nonlinear_clamp_redundant_witness:
  "(0::nat) \<le> 0 \<and> 0 < length [Some (0::real)] \<and> FLT_MIN < [2::real] ! 0
   \<and> float_round ([8::real] ! 0) = [8::real] ! 0
   \<and> nonlinear_gain 1 ([8] ! 0) ([2] ! 0) = Some (1 / 4)
   \<and> clamp_gain_directly (1 / 4) = 1 / 4
   \<and> nonlinear_power_sustraction 1 0 [8] [2] [Some 0] ! 0 = Some (1 / 4)"
proof -
  have h: "(0::nat) \<le> 0" "0 < length [Some (0::real)]" "FLT_MIN < [2::real] ! 0"
    "float_round ([8::real] ! 0) = [8::real] ! 0"
    using float_round_of_nat [of 8] by (simp_all add: FLT_MIN_def)
  have g: "nonlinear_gain 1 ([8] ! 0) ([2] ! 0) = Some (1 / 4)"
    by (simp add: nonlinear_gain_def fdiv_def fsqrt_def MAX_macro_def float_round_small_values)
  from nonlinear_clamp_redundant [OF h, of 1] obtain gain where
    r: "nonlinear_gain 1 ([8] ! 0) ([2] ! 0) = Some gain"
       "clamp_gain_directly gain = gain"
       "nonlinear_power_sustraction 1 0 [8] [2] [Some 0] ! 0
          = Some (float_round (1 - float_round (1 - gain)))"
    by blast
  from r(1) g have "gain = 1 / 4" by simp
  with r g h show ?thesis by (simp add: float_round_small_values)
qed

lemma float_round_near_1:
  "float_round (1 / 2 ^ 23) = 1 / 2 ^ 23"
  "float_round (1 / 2 ^ 23 / (1 + 1 / 2 ^ 23)) = 8388607 / 2 ^ 46"
  "float_round (1 - 8388607 / 2 ^ 46) = 1 - 1 / 2 ^ 23"
proof -
  show "float_round (1 / 2 ^ 23) = 1 / 2 ^ 23"
    using float_round_dyadic [of 1 "- 23"] by (simp add: power_int_minus_divide)
  show "float_round (1 / 2 ^ 23 / (1 + 1 / 2 ^ 23)) = 8388607 / 2 ^ 46"
    using float_round_eval [of "1 / 2 ^ 23 / (1 + 1 / 2 ^ 23)" "- 24" 16777214]
    by (simp add: power_int_minus_divide)
  show "float_round (1 - 8388607 / 2 ^ 46) = 1 - 1 / 2 ^ 23"
    using float_round_eval [of "1 - 8388607 / 2 ^ 46" "- 1" 16777214]
    by (simp add: power_int_minus_divide)
qed

text \<open>
  Claim C8 as stated fails: at the binary32 signal value \<open>1 + 1 / 2 ^ 23\<close> with
  threshold 1 and the SNR influence off, the intermediate gain is \<open>8388607 / 2 ^ 46\<close>,
  which lies in the unit interval, so clamping it directly gives the gain itself; the
  rule stores \<open>1 - Fk = 1 / 2 ^ 23\<close>, a different value, because \<open>Fk = 1 - gain\<close> rounds
  to \<open>1 - 1 / 2 ^ 23\<close>.
\<close>

theorem nonlinear_clamp_rounding_counterexample:
  "FLT_MIN < [1::real] ! 0
   \<and> float_round ([1 + 1 / 2 ^ 23 :: real] ! 0) = [1 + 1 / 2 ^ 23 :: real] ! 0
   \<and> nonlinear_gain 0 ([1 + 1 / 2 ^ 23] ! 0) ([1] ! 0) = Some (8388607 / 2 ^ 46)
   \<and> clamp_gain_directly (8388607 / 2 ^ 46) = 8388607 / 2 ^ 46
   \<and> nonlinear_power_sustraction 0 0 [1 + 1 / 2 ^ 23] [1] [Some 0] ! 0 = Some (1 / 2 ^ 23)
   \<and> (1 / 2 ^ 23 :: real) \<noteq> 8388607 / 2 ^ 46"
proof -
  define s :: real where "s = 1 + 1 / 2 ^ 23"
  define h :: real where "h = 1 / 2 ^ 23"
  define g0 :: real where "g0 = 8388607 / 2 ^ 46"
  have s: "float_round s = s"
    using float_round_dyadic [of 8388609 "- 23"] by (simp add: s_def power_int_minus_divide)
  have r: "float_round (s - 1) = h" "float_round h = h" "float_round (h / s) = g0"
    "float_round (1 - g0) = 1 - h"
    using float_round_near_1 by (simp_all add: s_def h_def g0_def)
  have o: "0 < s" "0 < h" "h < 1" "0 \<le> g0" "g0 \<le> 1"
    by (simp_all add: s_def h_def g0_def)
  have g: "nonlinear_gain 0 s 1 = Some g0"
    using o by (simp add: nonlinear_gain_def fdiv_def MAX_macro_def r)
  have a: "avoid_invalid_gain g0 = h"
    using o by (simp add: avoid_invalid_gain_def Let_def r)
  have b: "nonlinear_power_sustraction_bin 0 s 1 = Some h"
    by (simp add: nonlinear_power_sustraction_bin_def g a FLT_MIN_def)
  have "nonlinear_power_sustraction 0 0 [s] [1] [Some 0] ! 0 = Some h"
    using nth_rules(1) [of 0 0 "[Some 0]" 0 "[s]" "[1]"] b by simp
  moreover have "FLT_MIN < [1::real] ! 0" by (simp add: FLT_MIN_def)
  moreover have "clamp_gain_directly g0 = g0"
    using o by (simp add: clamp_gain_directly_def)
  moreover have "h \<noteq> g0" by (simp add: h_def g0_def)
  ultimately show ?thesis using s g by (simp add: s_def h_def g0_def)
qed
section \<open>Properties of the transient detector\<close>

lemma half_wave: "((t::real) + \<bar>t\<bar>) / 2 = max 0 t"
  by (simp add: max_def abs_if)








section \<open>Stages of the frame denoiser\<close>

lemma nth_fold_update_self:
  "distinct ks \<Longrightarrow> j < length G \<Longrightarrow>
   fold (\<lambda>k G. G[k := f k (G ! k)]) ks G ! j = (if j \<in> set ks then f j (G ! j) else G ! j)"
proof (induction ks arbitrary: G)
  case Nil
  then show ?case by simp
next
  case (Cons k ks)
  then have "j \<in> set ks \<Longrightarrow> j \<noteq> k" by auto
  with Cons show ?case by (auto simp: nth_list_update)
qed

lemma bins_from_one: "j \<in> set [1..<Suc N] \<longleftrightarrow> 1 \<le> j \<and> j \<le> N"
  by auto

lemma fold_pair_keeps:
  assumes "\<And>k W R. length (snd (body k (W, R))) = length R
                   \<and> (\<forall>j. j \<noteq> k \<longrightarrow> snd (body k (W, R)) ! j = R ! j)"
  shows "length (snd (fold body ks (W, R))) = length R
       \<and> (j \<notin> set ks \<longrightarrow> snd (fold body ks (W, R)) ! j = R ! j)"
proof (induction ks arbitrary: W R)
  case Nil
  then show ?case by simp
next
  case (Cons k ks)
  obtain W' R' where b: "body k (W, R) = (W', R')" by (cases "body k (W, R)")
  from assms [of k W R] have "length R' = length R" "\<And>j. j \<noteq> k \<Longrightarrow> R' ! j = R ! j"
    by (simp_all add: b)
  with Cons.IH [of W' R'] show ?case by (auto simp: b)
qed

lemma residual_spectrum_whitening_keeps:
  "denoise_parameters (residual_spectrum_whitening s w) = denoise_parameters s"
  "noise_profile_ptr (residual_spectrum_whitening s w) = noise_profile_ptr s"
  "wet_dry_target (residual_spectrum_whitening s w) = wet_dry_target s"
  "tau (residual_spectrum_whitening s w) = tau s"
  "samp_rate (residual_spectrum_whitening s w) = samp_rate s"
  "fft_spectrum (residual_spectrum_whitening s w) = fft_spectrum s"
  "wet_dry (residual_spectrum_whitening s w) = wet_dry s"
  "processed_fft_spectrum (residual_spectrum_whitening s w) = processed_fft_spectrum s"
  "denoised_spectrum (residual_spectrum_whitening s w) = denoised_spectrum s"
  "half_fft_size (residual_spectrum_whitening s w) = half_fft_size s"
  "fft_size (residual_spectrum_whitening s w) = fft_size s"
  "length (residual_spectrum (residual_spectrum_whitening s w)) = length (residual_spectrum s)"
  "residual_spectrum (residual_spectrum_whitening s w) ! 0 = residual_spectrum s ! 0"
proof -
  show "denoise_parameters (residual_spectrum_whitening s w) = denoise_parameters s"
  "noise_profile_ptr (residual_spectrum_whitening s w) = noise_profile_ptr s"
  "wet_dry_target (residual_spectrum_whitening s w) = wet_dry_target s"
  "tau (residual_spectrum_whitening s w) = tau s"
  "samp_rate (residual_spectrum_whitening s w) = samp_rate s"
  "fft_spectrum (residual_spectrum_whitening s w) = fft_spectrum s"
  "wet_dry (residual_spectrum_whitening s w) = wet_dry s"
  "processed_fft_spectrum (residual_spectrum_whitening s w) = processed_fft_spectrum s"
  "denoised_spectrum (residual_spectrum_whitening s w) = denoised_spectrum s"
  "half_fft_size (residual_spectrum_whitening s w) = half_fft_size s"
  "fft_size (residual_spectrum_whitening s w) = fft_size s"
    by (simp_all add: residual_spectrum_whitening_def Let_def split: prod.splits)
  show "length (residual_spectrum (residual_spectrum_whitening s w)) = length (residual_spectrum s)"
    unfolding residual_spectrum_whitening_def Let_def case_prod_beta
    apply (simp del: upt_Suc)
    apply (rule fold_pair_keeps [THEN conjunct1])
    apply (auto simp: nth_list_update)
    done
  show "residual_spectrum (residual_spectrum_whitening s w) ! 0 = residual_spectrum s ! 0"
    unfolding residual_spectrum_whitening_def Let_def case_prod_beta
    apply (simp del: upt_Suc)
    apply (rule fold_pair_keeps [THEN conjunct2, rule_format])
     apply (auto simp: nth_list_update)
    done
qed


lemma get_denoised_spectrum_keeps:
  "denoise_parameters (get_denoised_spectrum s) = denoise_parameters s"
  "noise_profile_ptr (get_denoised_spectrum s) = noise_profile_ptr s"
  "wet_dry_target (get_denoised_spectrum s) = wet_dry_target s"
  "tau (get_denoised_spectrum s) = tau s"
  "samp_rate (get_denoised_spectrum s) = samp_rate s"
  "fft_spectrum (get_denoised_spectrum s) = fft_spectrum s"
  "wet_dry (get_denoised_spectrum s) = wet_dry s"
  "processed_fft_spectrum (get_denoised_spectrum s) = processed_fft_spectrum s"
  "residual_spectrum (get_denoised_spectrum s) = residual_spectrum s"
  "half_fft_size (get_denoised_spectrum s) = half_fft_size s"
  "fft_size (get_denoised_spectrum s) = fft_size s"
  "length (denoised_spectrum (get_denoised_spectrum s)) = length (denoised_spectrum s)"
  "0 < length (denoised_spectrum s) \<Longrightarrow>
     denoised_spectrum (get_denoised_spectrum s) ! 0 = denoised_spectrum s ! 0"
  by (simp_all add: get_denoised_spectrum_def length_fold_update nth_fold_update del: upt_Suc)

lemma get_residual_spectrum_keeps:
  "denoise_parameters (get_residual_spectrum s w) = denoise_parameters s"
  "noise_profile_ptr (get_residual_spectrum s w) = noise_profile_ptr s"
  "wet_dry_target (get_residual_spectrum s w) = wet_dry_target s"
  "tau (get_residual_spectrum s w) = tau s"
  "samp_rate (get_residual_spectrum s w) = samp_rate s"
  "fft_spectrum (get_residual_spectrum s w) = fft_spectrum s"
  "wet_dry (get_residual_spectrum s w) = wet_dry s"
  "processed_fft_spectrum (get_residual_spectrum s w) = processed_fft_spectrum s"
  "denoised_spectrum (get_residual_spectrum s w) = denoised_spectrum s"
  "half_fft_size (get_residual_spectrum s w) = half_fft_size s"
  "fft_size (get_residual_spectrum s w) = fft_size s"
  "length (residual_spectrum (get_residual_spectrum s w)) = length (residual_spectrum s)"
  "0 < length (residual_spectrum s) \<Longrightarrow>
     residual_spectrum (get_residual_spectrum s w) ! 0 = residual_spectrum s ! 0"
  by (simp_all add: get_residual_spectrum_def Let_def residual_spectrum_whitening_keeps
      length_fold_update nth_fold_update del: upt_Suc)

lemma get_final_spectrum_keeps:
  "denoise_parameters (get_final_spectrum s listen r) = denoise_parameters s"
  "noise_profile_ptr (get_final_spectrum s listen r) = noise_profile_ptr s"
  "wet_dry_target (get_final_spectrum s listen r) = wet_dry_target s"
  "tau (get_final_spectrum s listen r) = tau s"
  "samp_rate (get_final_spectrum s listen r) = samp_rate s"
  "fft_spectrum (get_final_spectrum s listen r) = fft_spectrum s"
  "wet_dry (get_final_spectrum s listen r) = wet_dry s"
  "denoised_spectrum (get_final_spectrum s listen r) = denoised_spectrum s"
  "residual_spectrum (get_final_spectrum s listen r) = residual_spectrum s"
  "half_fft_size (get_final_spectrum s listen r) = half_fft_size s"
  "fft_size (get_final_spectrum s listen r) = fft_size s"
  "length (processed_fft_spectrum (get_final_spectrum s listen r))
     = length (processed_fft_spectrum s)"
  by (simp_all add: get_final_spectrum_def length_fold_update del: upt_Suc)

lemma get_final_spectrum_nth:
  assumes "k < length (processed_fft_spectrum s)"
  shows "processed_fft_spectrum (get_final_spectrum s listen r) ! k =
    (if 1 \<le> k \<and> k \<le> half_fft_size s
     then (if listen then residual_spectrum s ! k
           else denoised_spectrum s ! k + residual_spectrum s ! k * r)
     else processed_fft_spectrum s ! k)"
  using assms
  by (auto simp add: get_final_spectrum_def nth_fold_update simp del: upt_Suc)

lemma fft_denoiser_analyse_keeps:
  "processed_fft_spectrum (fft_denoiser_analyse s e frame) = processed_fft_spectrum s"
  "denoised_spectrum (fft_denoiser_analyse s e frame) = denoised_spectrum s"
  "residual_spectrum (fft_denoiser_analyse s e frame) = residual_spectrum s"
  "whitened_residual_spectrum (fft_denoiser_analyse s e frame) = whitened_residual_spectrum s"
  "residual_max_spectrum (fft_denoiser_analyse s e frame) = residual_max_spectrum s"
  "whitening_window_count (fft_denoiser_analyse s e frame) = whitening_window_count s"
  "gain_spectrum (fft_denoiser_analyse s e frame) = gain_spectrum s"
  "gain_estimation (fft_denoiser_analyse s e frame) = gain_estimation s"
  "noise_estimation (fft_denoiser_analyse s e frame) = noise_estimation s"
  "noise_profile_ptr (fft_denoiser_analyse s e frame) = noise_profile_ptr s"
  "denoise_parameters (fft_denoiser_analyse s e frame) = denoise_parameters s"
  "half_fft_size (fft_denoiser_analyse s e frame) = half_fft_size s"
  "fft_size (fft_denoiser_analyse s e frame) = fft_size s"
  "tau (fft_denoiser_analyse s e frame) = tau s"
  "samp_rate (fft_denoiser_analyse s e frame) = samp_rate s"
  "fft_spectrum (fft_denoiser_analyse s e frame) = take (fft_size s) frame"
  "wet_dry (fft_denoiser_analyse s e frame) = wet_dry (fft_denoiser_update_wetdry_target s e)"
  "wet_dry_target (fft_denoiser_analyse s e frame) = (if e then 1 else 0)"
  by (simp_all add: fft_denoiser_analyse_def fft_denoiser_update_wetdry_target_def Let_def
      split: prod.splits)

lemma fft_denoiser_stages_inv:
  assumes "fft_denoiser_inv s"
  shows "fft_denoiser_inv (fft_denoiser_stages E s p profile frame)"
  using assms
  by (simp add: fft_denoiser_inv_def fft_denoiser_stages_def Let_def 
      fft_denoiser_analyse_keeps get_final_spectrum_keeps get_final_spectrum_nth
      get_residual_spectrum_keeps get_denoised_spectrum_keeps
      split: prod.splits)

lemma fft_denoiser_stages_keeps:
  "denoise_parameters (fft_denoiser_stages E s p profile frame) = denoise_parameters s"
  "wet_dry_target (fft_denoiser_stages E s p profile frame) = (if enable p then 1 else 0)"
  "\<not> learn_noise p \<Longrightarrow>
     noise_profile_ptr (fft_denoiser_stages E s p profile frame) = noise_profile_ptr s"
  "half_fft_size (fft_denoiser_stages E s p profile frame) = half_fft_size s"
  "fft_size (fft_denoiser_stages E s p profile frame) = fft_size s"
  "tau (fft_denoiser_stages E s p profile frame) = tau s"
  "samp_rate (fft_denoiser_stages E s p profile frame) = samp_rate s"
  "fft_spectrum (fft_denoiser_stages E s p profile frame) = take (fft_size s) frame"
  "wet_dry (fft_denoiser_stages E s p profile frame)
     = wet_dry (fft_denoiser_update_wetdry_target s (enable p))"
  by (simp_all add: fft_denoiser_stages_def Let_def fft_denoiser_analyse_keeps
      get_final_spectrum_keeps get_residual_spectrum_keeps get_denoised_spectrum_keeps
      split: prod.splits)

lemma fft_denoiser_soft_bypass_keeps:
  "denoise_parameters (fft_denoiser_soft_bypass s) = denoise_parameters s"
  "noise_profile_ptr (fft_denoiser_soft_bypass s) = noise_profile_ptr s"
  "wet_dry_target (fft_denoiser_soft_bypass s) = wet_dry_target s"
  "half_fft_size (fft_denoiser_soft_bypass s) = half_fft_size s"
  "fft_size (fft_denoiser_soft_bypass s) = fft_size s"
  "tau (fft_denoiser_soft_bypass s) = tau s"
  "samp_rate (fft_denoiser_soft_bypass s) = samp_rate s"
  "wet_dry (fft_denoiser_soft_bypass s) = wet_dry s"
  "denoised_spectrum (fft_denoiser_soft_bypass s) = denoised_spectrum s"
  "residual_spectrum (fft_denoiser_soft_bypass s) = residual_spectrum s"
  "gain_spectrum (fft_denoiser_soft_bypass s) = gain_spectrum s"
  "whitened_residual_spectrum (fft_denoiser_soft_bypass s) = whitened_residual_spectrum s"
  "residual_max_spectrum (fft_denoiser_soft_bypass s) = residual_max_spectrum s"
  "whitening_window_count (fft_denoiser_soft_bypass s) = whitening_window_count s"
  "gain_estimation (fft_denoiser_soft_bypass s) = gain_estimation s"
  "noise_estimation (fft_denoiser_soft_bypass s) = noise_estimation s"
  "length (processed_fft_spectrum (fft_denoiser_soft_bypass s))
     = length (processed_fft_spectrum s)"
  by (simp_all add: fft_denoiser_soft_bypass_def length_fold_update del: upt_Suc)

lemma fft_denoiser_soft_bypass_nth:
  assumes "k < length (processed_fft_spectrum s)"
  shows "processed_fft_spectrum (fft_denoiser_soft_bypass s) ! k =
    (if 1 \<le> k \<and> k \<le> half_fft_size s
     then (1 - wet_dry s) * fft_spectrum s ! k + processed_fft_spectrum s ! k * wet_dry s
     else processed_fft_spectrum s ! k)"
  using assms
  by (auto simp add: fft_denoiser_soft_bypass_def
      nth_fold_update_self [where f = "\<lambda>k x. (1 - wet_dry s) * fft_spectrum s ! k + x * wet_dry s"]
      simp del: upt_Suc)

lemma fft_denoiser_soft_bypass_inv:
  "fft_denoiser_inv s \<Longrightarrow> fft_denoiser_inv (fft_denoiser_soft_bypass s)"
  by (simp add: fft_denoiser_inv_def fft_denoiser_soft_bypass_keeps fft_denoiser_soft_bypass_nth)

lemma fft_denoiser_initialize_inv:
  "fft_denoiser_initialize E rate n overlap = Some s \<Longrightarrow> fft_denoiser_inv s"
  by (auto simp: fft_denoiser_initialize_def fft_denoiser_inv_def Let_def split: if_splits)

lemma reachable_inv: "reachable E s \<Longrightarrow> fft_denoiser_inv s"
proof (induction rule: reachable.induct)
  case (constructed rate n overlap_factor self)
  then show ?case by (rule fft_denoiser_initialize_inv)
next
  case (parameters_loaded self p)
  then show ?case by (simp add: fft_denoiser_inv_def load_denoise_parameters_def)
next
  case (profile_loaded self profile)
  then show ?case by (simp add: fft_denoiser_inv_def load_noise_profile_def)
next
  case (frame_run self frame self' out)
  then show ?case
    by (auto simp: fft_denoiser_run_def Let_def fft_denoiser_soft_bypass_inv
        fft_denoiser_stages_inv split: option.splits)
qed

section \<open>Properties of the frame denoiser\<close>

lemma fft_denoiser_run_Some:
  assumes "denoise_parameters s = Some p" and "noise_profile_ptr s = Some profile"
  shows "fft_denoiser_run E s frame =
    Some (fft_denoiser_soft_bypass (fft_denoiser_stages E s p profile frame),
          copy_processed
            (processed_fft_spectrum (fft_denoiser_soft_bypass (fft_denoiser_stages E s p profile frame)))
            (half_fft_size s) frame)"
  using assms
  by (simp add: fft_denoiser_run_def Let_def fft_denoiser_soft_bypass_keeps
      fft_denoiser_stages_keeps)

lemma copy_processed_nth:
  "k < half \<Longrightarrow> half < length processed \<Longrightarrow>
   copy_processed processed half frame ! k = Float (processed ! k)"
  by (simp add: copy_processed_def nth_append)

text \<open>
  Claim C10.  In every state reached from construction with a transform size of at least
  2, a call with parameters and profile loaded returns, entry 0 of the returned frame is
  the whole value 0, and entry 0 of the processed spectrum is still 0: no stage writes it,
  and the closing copy carries it into the frame.
\<close>

theorem dc_bin_zero:
  assumes "reachable E s" and "1 \<le> half_fft_size s"
    and "denoise_parameters s = Some p" and "noise_profile_ptr s = Some profile"
  shows "\<exists>s' out. fft_denoiser_run E s frame = Some (s', out)
           \<and> out ! 0 = Float 0 \<and> processed_fft_spectrum s' ! 0 = 0"
proof -
  let ?s' = "fft_denoiser_soft_bypass (fft_denoiser_stages E s p profile frame)"
  have "fft_denoiser_inv ?s'"
    using assms(1)
    by (simp add: reachable_inv fft_denoiser_stages_inv fft_denoiser_soft_bypass_inv)
  then have "processed_fft_spectrum ?s' ! 0 = 0"
    "length (processed_fft_spectrum ?s') = half_fft_size s + 1"
    by (simp_all add: fft_denoiser_inv_def fft_denoiser_soft_bypass_keeps
        fft_denoiser_stages_keeps)
  then show ?thesis
    using assms(2) by (simp add: fft_denoiser_run_Some [OF assms(3,4)] copy_processed_nth)
qed

text \<open>
  Claim C3, as amended.  A call returns a frame whose entries \<open>1\<close> to
  \<open>half_fft_size - 1\<close> are \<open>(1 - wet_dry) * raw + wet_dry * processed\<close>, where \<open>raw\<close> is
  the entry on entry to the call, \<open>processed\<close> the processed spectrum on which the soft
  bypass runs and \<open>wet_dry\<close> the state updated by this call.  Entry 0 is not blended: it is
  entry 0 of the processed spectrum.
\<close>

theorem soft_bypass_blend:
  assumes "reachable E s"
    and "denoise_parameters s = Some p" and "noise_profile_ptr s = Some profile"
    and "length frame = fft_size s"
  shows "\<exists>s' out. fft_denoiser_run E s frame = Some (s', out)
           \<and> wet_dry s' = wet_dry (fft_denoiser_update_wetdry_target s (enable p))
           \<and> (1 \<le> half_fft_size s \<longrightarrow>
                out ! 0 = Float (processed_fft_spectrum (fft_denoiser_stages E s p profile frame) ! 0))
           \<and> (\<forall>k. 1 \<le> k \<and> k < half_fft_size s \<longrightarrow>
                out ! k = Float ((1 - wet_dry s') * frame ! k
                  + wet_dry s' * processed_fft_spectrum (fft_denoiser_stages E s p profile frame) ! k))"
proof -
  let ?st = "fft_denoiser_stages E s p profile frame"
  let ?s' = "fft_denoiser_soft_bypass ?st"
  have inv: "fft_denoiser_inv ?st"
    using assms(1) by (simp add: reachable_inv fft_denoiser_stages_inv)
  then have len: "length (processed_fft_spectrum ?st) = half_fft_size s + 1"
    and half: "half_fft_size s = fft_size s div 2"
    by (simp_all add: fft_denoiser_inv_def fft_denoiser_stages_keeps)
  have w: "wet_dry ?s' = wet_dry (fft_denoiser_update_wetdry_target s (enable p))"
    by (simp add: fft_denoiser_soft_bypass_keeps fft_denoiser_stages_keeps)
  have zero: "1 \<le> half_fft_size s \<Longrightarrow>
      copy_processed (processed_fft_spectrum ?s') (half_fft_size s) frame ! 0
        = Float (processed_fft_spectrum ?st ! 0)"
    using len
    by (simp add: copy_processed_nth fft_denoiser_soft_bypass_keeps fft_denoiser_soft_bypass_nth)
  have blend: "copy_processed (processed_fft_spectrum ?s') (half_fft_size s) frame ! k
        = Float ((1 - wet_dry ?s') * frame ! k + wet_dry ?s' * processed_fft_spectrum ?st ! k)"
    if "1 \<le> k" "k < half_fft_size s" for k
  proof -
    have "k < fft_size s" using that half by simp
    then have "fft_spectrum ?st ! k = frame ! k"
      by (simp add: fft_denoiser_stages_keeps)
    then show ?thesis
      using that len
      by (simp add: copy_processed_nth fft_denoiser_soft_bypass_keeps
          fft_denoiser_soft_bypass_nth fft_denoiser_stages_keeps mult.commute)
  qed
  show ?thesis
    using w zero blend by (simp add: fft_denoiser_run_Some [OF assms(2,3)])
qed


lemma example_denoiser_reachable: "reachable example_estimators example_denoiser"
proof -
  have "fft_denoiser_initialize example_estimators 44100 4 4
        = Some (the (fft_denoiser_initialize example_estimators 44100 4 4))"
    by (simp add: fft_denoiser_initialize_def)
  then show ?thesis
    unfolding example_denoiser_def
    by (intro reachable.profile_loaded reachable.parameters_loaded reachable.constructed)
qed

lemma replicate_2: "replicate 2 x = [x, x]"
  by (simp add: numeral_2_eq_2)

lemma replicate_4: "replicate 4 x = [x, x, x, x]"
  by (simp add: numeral_eq_Suc)

lemma example_denoiser_fields:
  "fft_size example_denoiser = 4" "half_fft_size example_denoiser = 2"
  "samp_rate example_denoiser = 44100"
  "wet_dry example_denoiser = 0"
  "tau example_denoiser
     = float_round (1 - float_round (exp (float_round (- 2 * pi * 25 * 64 / 44100))))"
  "processed_fft_spectrum example_denoiser = [0, 0, 0]"
  "denoised_spectrum example_denoiser = [0, 0, 0]"
  "residual_spectrum example_denoiser = [0, 0, 0]"
  "gain_spectrum example_denoiser = [0, 0, 0]"
  "power_spectrum example_denoiser = [0, 0, 0]"
  "magnitude_spectrum example_denoiser = [0, 0, 0]"
  "phase_spectrum example_denoiser = [0, 0, 0]"
  "denoise_parameters example_denoiser = Some example_parameters"
  "noise_profile_ptr example_denoiser = Some example_profile"
  "gain_estimation example_denoiser = 0"
  "noise_estimation example_denoiser = 0"
  by (simp_all add: example_denoiser_def fft_denoiser_initialize_def load_noise_profile_def
      load_denoise_parameters_def replicate_2 replicate_4 example_estimators_def)


lemma upt_1_3: "[Suc 0..<3] = [Suc 0, 2]"
  by (simp add: upt_rec)

lemma example_wet_dry:
  "wet_dry (fft_denoiser_update_wetdry_target example_denoiser False) = FLT_MIN"
  "wet_dry_target (fft_denoiser_update_wetdry_target example_denoiser False) = 0"
  by (simp_all add: fft_denoiser_update_wetdry_target_def Let_def example_denoiser_fields)

lemma FLT_MIN_neq_1: "1 - FLT_MIN \<noteq> 0"
  by (simp add: FLT_MIN_def)

text \<open>
  Claim C3 as stated fails at bin 0: on the first frame after construction, with the
  denoiser disabled and a frame whose entry 0 is 1, the wet/dry state is \<open>FLT_MIN\<close> and the
  blend of the claim is \<open>1 - FLT_MIN\<close>, but the returned entry 0 is 0.
\<close>

theorem soft_bypass_blend_dc_counterexample:
  "snd (the (fft_denoiser_run example_estimators example_denoiser [1, 0, 0, 0])) ! 0 = Float 0
   \<and> wet_dry (fst (the (fft_denoiser_run example_estimators example_denoiser [1, 0, 0, 0])))
       = FLT_MIN
   \<and> (1 - wet_dry (fst (the (fft_denoiser_run example_estimators example_denoiser [1, 0, 0, 0]))))
         * [1, 0, 0, 0] ! 0
       + wet_dry (fst (the (fft_denoiser_run example_estimators example_denoiser [1, 0, 0, 0])))
         * processed_fft_spectrum
             (fft_denoiser_stages example_estimators example_denoiser example_parameters
                example_profile [1, 0, 0, 0]) ! 0
       = 1 - FLT_MIN
   \<and> Float (1 - FLT_MIN) \<noteq> Float 0"
proof -
  let ?st = "fft_denoiser_stages example_estimators example_denoiser example_parameters
                example_profile [1, 0, 0, 0]"
  let ?s' = "fft_denoiser_soft_bypass ?st"
  have run: "fft_denoiser_run example_estimators example_denoiser [1, 0, 0, 0]
      = Some (?s', copy_processed (processed_fft_spectrum ?s') 2 [1, 0, 0, 0])"
    using fft_denoiser_run_Some [of example_denoiser example_parameters example_profile
        example_estimators "[1, 0, 0, 0]"]
    by (simp add: example_denoiser_fields)
  have inv: "fft_denoiser_inv ?st" "fft_denoiser_inv ?s'"
    using example_denoiser_reachable
    by (simp_all add: reachable_inv fft_denoiser_stages_inv fft_denoiser_soft_bypass_inv)
  then have p: "processed_fft_spectrum ?st ! 0 = 0" "processed_fft_spectrum ?s' ! 0 = 0"
    "length (processed_fft_spectrum ?s') = 3"
    by (simp_all add: fft_denoiser_inv_def fft_denoiser_soft_bypass_keeps
        fft_denoiser_stages_keeps example_denoiser_fields)
  have w: "wet_dry ?s' = FLT_MIN"
    by (simp add: fft_denoiser_soft_bypass_keeps fft_denoiser_stages_keeps example_wet_dry
        example_parameters_def)
  show ?thesis
    using FLT_MIN_neq_1 by (simp add: run p w copy_processed_nth)
qed


lemma get_denoised_spectrum_nth:
  assumes "k < length (denoised_spectrum s)"
  shows "denoised_spectrum (get_denoised_spectrum s) ! k =
    (if 1 \<le> k \<and> k \<le> half_fft_size s then fft_spectrum s ! k * gain_spectrum s ! k
     else denoised_spectrum s ! k)"
  using assms by (auto simp add: get_denoised_spectrum_def nth_fold_update simp del: upt_Suc)

lemma get_residual_spectrum_nth:
  assumes "k < length (residual_spectrum s)" and "\<not> w > 0"
  shows "residual_spectrum (get_residual_spectrum s w) ! k =
    (if 1 \<le> k \<and> k \<le> half_fft_size s then fft_spectrum s ! k - denoised_spectrum s ! k
     else residual_spectrum s ! k)"
  using assms
  by (auto simp add: get_residual_spectrum_def Let_def nth_fold_update simp del: upt_Suc)

lemma fft_denoiser_analyse_power:
  "power_spectrum (fft_denoiser_analyse s e frame) =
     fst (get_info_from_bins (power_spectrum s, magnitude_spectrum s, phase_spectrum s)
            (half_fft_size s) (fft_size s) (take (fft_size s) frame))"
  by (simp add: fft_denoiser_analyse_def fft_denoiser_update_wetdry_target_def Let_def
      split: prod.splits)

lemma fft_denoiser_stages_silent:
  assumes "is_empty (power_spectrum (fft_denoiser_analyse s (enable p) frame)) (half_fft_size s)"
  shows "fft_denoiser_stages E s p profile frame = fft_denoiser_analyse s (enable p) frame"
  using assms by (simp add: fft_denoiser_stages_def Let_def fft_denoiser_analyse_keeps)

lemma fft_denoiser_stages_suppress:
  assumes "\<not> is_empty (power_spectrum (fft_denoiser_analyse s (enable p) frame)) (half_fft_size s)"
    and "\<not> learn_noise p"
    and "is_noise_estimation_available E (noise_estimation s)"
  shows "fft_denoiser_stages E s p profile frame =
    get_final_spectrum
      (get_residual_spectrum
        (get_denoised_spectrum
          ((fft_denoiser_analyse s (enable p) frame)
            \<lparr>gain_estimation :=
               fst (gain_estimation_run E (gain_estimation s)
                 (power_spectrum (fft_denoiser_analyse s (enable p) frame))
                 (noise_profile profile) (gain_spectrum s) (transient_threshold p)
                 (masking_ceiling_limit p / 100) (release_time p) (noise_rescale p)),
             gain_spectrum :=
               snd (gain_estimation_run E (gain_estimation s)
                 (power_spectrum (fft_denoiser_analyse s (enable p) frame))
                 (noise_profile profile) (gain_spectrum s) (transient_threshold p)
                 (masking_ceiling_limit p / 100) (release_time p) (noise_rescale p))\<rparr>))
        (whitening_factor p))
      (residual_listen p) (from_db_to_cv (reduction_amount p * - 1))"
  using assms
  by (simp add: fft_denoiser_stages_def Let_def fft_denoiser_analyse_keeps case_prod_beta)

lemma from_db_to_cv_powr: "from_db_to_cv (x * - 1) = 10 powr (- x / 10)"
  by (simp add: from_db_to_cv_def powr_def)

text \<open>
  Claim C4, as amended.  On a frame that is not silent, with learning off and a noise
  profile available, the processed spectrum on which the soft bypass runs is, at every bin
  \<open>k \<le> half_fft_size\<close>, the residual in residual-listen mode and otherwise
  \<open>denoised + residual * r\<close> with \<open>r = 10 powr (- dB / 10)\<close>, \<open>dB\<close> being the reduction-amount
  parameter: the code negates the parameter before the conversion.
\<close>

theorem final_spectrum_composition:
  assumes "reachable E s"
    and "denoise_parameters s = Some p" and "noise_profile_ptr s = Some profile"
    and "\<not> is_empty (power_spectrum (fft_denoiser_analyse s (enable p) frame)) (half_fft_size s)"
    and "\<not> learn_noise p"
    and "is_noise_estimation_available E (noise_estimation s)"
    and "k \<le> half_fft_size s"
  defines "final \<equiv> fft_denoiser_stages E s p profile frame"
  shows "processed_fft_spectrum final ! k =
    (if residual_listen p then residual_spectrum final ! k
     else denoised_spectrum final ! k
          + residual_spectrum final ! k * 10 powr (- reduction_amount p / 10))"
proof -
  define before where "before = get_residual_spectrum
        (get_denoised_spectrum
          ((fft_denoiser_analyse s (enable p) frame)
            \<lparr>gain_estimation :=
               fst (gain_estimation_run E (gain_estimation s)
                 (power_spectrum (fft_denoiser_analyse s (enable p) frame))
                 (noise_profile profile) (gain_spectrum s) (transient_threshold p)
                 (masking_ceiling_limit p / 100) (release_time p) (noise_rescale p)),
             gain_spectrum :=
               snd (gain_estimation_run E (gain_estimation s)
                 (power_spectrum (fft_denoiser_analyse s (enable p) frame))
                 (noise_profile profile) (gain_spectrum s) (transient_threshold p)
                 (masking_ceiling_limit p / 100) (release_time p) (noise_rescale p))\<rparr>))
        (whitening_factor p)"
  have final: "final = get_final_spectrum before (residual_listen p)
                  (10 powr (- reduction_amount p / 10))"
    unfolding final_def before_def
    by (simp only: fft_denoiser_stages_suppress [OF assms(4,5,6)] from_db_to_cv_powr)
  have inv: "fft_denoiser_inv s" using assms(1) by (rule reachable_inv)
  then have b: "half_fft_size before = half_fft_size s"
    "length (processed_fft_spectrum before) = half_fft_size s + 1"
    "processed_fft_spectrum before ! 0 = 0"
    "denoised_spectrum before ! 0 = 0"
    "residual_spectrum before ! 0 = 0"
    by (simp_all add: before_def fft_denoiser_inv_def get_residual_spectrum_keeps
        get_denoised_spectrum_keeps fft_denoiser_analyse_keeps)
  show ?thesis
    using assms(7) b
    by (cases "k = 0")
       (simp_all add: final get_final_spectrum_nth get_final_spectrum_keeps)
qed


lemma example_power:
  "power_spectrum (fft_denoiser_analyse example_denoiser e [0, 2, 0, 0]) = [0, 4, 0]"
  "power_spectrum (fft_denoiser_analyse example_denoiser e [0, 0, 0, 0]) = [0, 0, 0]"
  by (simp_all add: fft_denoiser_analyse_power example_denoiser_fields
      get_info_from_bins_def upt_1_3 atan2f_def)

lemma example_not_empty:
  "\<not> is_empty (power_spectrum (fft_denoiser_analyse example_denoiser e [0, 2, 0, 0])) 2"
  by (simp add: example_power is_empty_def upt_1_3 FLT_MIN_def)

lemma example_final:
  defines "final \<equiv> fft_denoiser_stages example_estimators example_denoiser example_parameters
                     example_profile [0, 2, 0, 0]"
  shows "processed_fft_spectrum final ! 1 = 11 / 10"
    and "denoised_spectrum final ! 1 = 1"
    and "residual_spectrum final ! 1 = 1"
proof -
  let ?a = "fft_denoiser_analyse example_denoiser False [0, 2, 0, 0]"
  let ?g = "?a\<lparr>gain_estimation := Suc 0, gain_spectrum := [1 / 2, 1 / 2, 1 / 2]\<rparr>"
  let ?b = "get_residual_spectrum (get_denoised_spectrum ?g) 0"
  have e: "enable example_parameters = False" "\<not> learn_noise example_parameters"
    "whitening_factor example_parameters = 0" "\<not> residual_listen example_parameters"
    "reduction_amount example_parameters = 10"
    "is_noise_estimation_available example_estimators u" for u
    by (simp_all add: example_parameters_def example_estimators_def)
  have ne: "\<not> is_empty (power_spectrum (fft_denoiser_analyse example_denoiser
              (enable example_parameters) [0, 2, 0, 0])) (half_fft_size example_denoiser)"
    using example_not_empty by (simp add: example_denoiser_fields)
  have r: "from_db_to_cv (- 10) = 1 / 10"
    by (simp add: from_db_to_cv_def exp_minus inverse_eq_divide)
  have final: "final = get_final_spectrum ?b False (1 / 10)"
    unfolding final_def fft_denoiser_stages_suppress [OF ne e(2) e(6)]
    by (simp add: e r example_estimators_def fft_denoiser_analyse_keeps example_denoiser_fields)
  have d: "denoised_spectrum ?b ! Suc 0 = 1"
    by (simp add: get_residual_spectrum_keeps get_denoised_spectrum_nth
        fft_denoiser_analyse_keeps example_denoiser_fields)
  have x: "residual_spectrum ?b ! Suc 0 = 1"
    by (simp add: get_residual_spectrum_nth get_denoised_spectrum_nth get_denoised_spectrum_keeps
        fft_denoiser_analyse_keeps example_denoiser_fields)
  have l: "length (processed_fft_spectrum ?b) = 3" "half_fft_size ?b = 2"
    by (simp_all add: get_residual_spectrum_keeps get_denoised_spectrum_keeps
        fft_denoiser_analyse_keeps example_denoiser_fields)
  show "processed_fft_spectrum final ! 1 = 11 / 10"
    by (simp add: final get_final_spectrum_nth l d x)
  show "denoised_spectrum final ! 1 = 1" "residual_spectrum final ! 1 = 1"
    by (simp_all add: final get_final_spectrum_keeps d x)
qed

text \<open>
  Claim C4 as stated fails on the sign of the exponent: with a reduction amount of 10 dB,
  denoised and residual both 1 at bin 1, the processed spectrum is \<open>1 + 1 / 10\<close>, while
  \<open>denoised + residual * 10 powr (dB / 10)\<close> is 11.
\<close>

theorem final_spectrum_sign_counterexample:
  "is_noise_estimation_available example_estimators (noise_estimation example_denoiser)
   \<and> \<not> residual_listen example_parameters
   \<and> reduction_amount example_parameters = 10
   \<and> processed_fft_spectrum
        (fft_denoiser_stages example_estimators example_denoiser example_parameters
           example_profile [0, 2, 0, 0]) ! 1 = 11 / 10
   \<and> denoised_spectrum
        (fft_denoiser_stages example_estimators example_denoiser example_parameters
           example_profile [0, 2, 0, 0]) ! 1
     + residual_spectrum
        (fft_denoiser_stages example_estimators example_denoiser example_parameters
           example_profile [0, 2, 0, 0]) ! 1
       * 10 powr (reduction_amount example_parameters / 10) = 11"
proof -
  have p: "reduction_amount example_parameters = 10" "\<not> residual_listen example_parameters"
    "is_noise_estimation_available example_estimators (noise_estimation example_denoiser)"
    by (simp_all add: example_parameters_def example_estimators_def)
  show ?thesis
    unfolding example_final p(1) using p(2,3) by simp
qed

text \<open>
  Claim C4 at bin 1 of the frame \<open>[0, 2, 0, 0]\<close> in the example denoiser.
\<close>

theorem final_spectrum_composition_witness:
  "reachable example_estimators example_denoiser
   \<and> denoise_parameters example_denoiser = Some example_parameters
   \<and> noise_profile_ptr example_denoiser = Some example_profile
   \<and> \<not> is_empty (power_spectrum (fft_denoiser_analyse example_denoiser
            (enable example_parameters) [0, 2, 0, 0])) (half_fft_size example_denoiser)
   \<and> \<not> learn_noise example_parameters
   \<and> is_noise_estimation_available example_estimators (noise_estimation example_denoiser)
   \<and> (1::nat) \<le> half_fft_size example_denoiser
   \<and> processed_fft_spectrum
        (fft_denoiser_stages example_estimators example_denoiser example_parameters
           example_profile [0, 2, 0, 0]) ! 1
     = denoised_spectrum
        (fft_denoiser_stages example_estimators example_denoiser example_parameters
           example_profile [0, 2, 0, 0]) ! 1
     + residual_spectrum
        (fft_denoiser_stages example_estimators example_denoiser example_parameters
           example_profile [0, 2, 0, 0]) ! 1
       * 10 powr (- 10 / 10)"
proof -
  have h: "denoise_parameters example_denoiser = Some example_parameters"
    "noise_profile_ptr example_denoiser = Some example_profile"
    "\<not> is_empty (power_spectrum (fft_denoiser_analyse example_denoiser
            (enable example_parameters) [0, 2, 0, 0])) (half_fft_size example_denoiser)"
    "\<not> learn_noise example_parameters"
    "is_noise_estimation_available example_estimators (noise_estimation example_denoiser)"
    "(1::nat) \<le> half_fft_size example_denoiser"
    using example_not_empty
    by (simp_all add: example_denoiser_fields example_parameters_def example_estimators_def)
  have "\<not> residual_listen example_parameters" "reduction_amount example_parameters = 10"
    by (simp_all add: example_parameters_def)
  with final_spectrum_composition [OF example_denoiser_reachable h]
  show ?thesis
    using h example_denoiser_reachable by simp
qed

section \<open>Wet/dry state, silent frames and the examples\<close>

lemma fft_denoiser_run_wet_dry:
  assumes "fft_denoiser_run E s frame = Some (s', out)"
  shows "\<exists>p. denoise_parameters s = Some p
           \<and> wet_dry s' = wet_dry (fft_denoiser_update_wetdry_target s (enable p))
           \<and> tau s' = tau s \<and> samp_rate s' = samp_rate s"
  using assms
  by (auto simp: fft_denoiser_run_def Let_def fft_denoiser_soft_bypass_keeps
      fft_denoiser_stages_keeps split: option.splits)

lemma reachable_tau:
  "reachable E s \<Longrightarrow>
   tau s = float_round (1 - float_round (exp (float_round
             (- 2 * pi * 25 * 64 / real_of_int (samp_rate s)))))"
proof (induction rule: reachable.induct)
  case (constructed rate n overlap_factor self)
  then show ?case
    by (auto simp: fft_denoiser_initialize_def Let_def split: if_splits)
next
  case (parameters_loaded self p)
  then show ?case by (simp add: load_denoise_parameters_def)
next
  case (profile_loaded self profile)
  then show ?case by (simp add: load_noise_profile_def)
next
  case (frame_run self frame self' out)
  from fft_denoiser_run_wet_dry [OF frame_run.hyps(2)] frame_run.IH show ?case by auto
qed

lemma tau_range:
  assumes "reachable E s" and "0 < samp_rate s"
  shows "0 \<le> tau s" and "tau s \<le> 1"
proof -
  define x where "x = float_round (- 2 * pi * 25 * 64 / real_of_int (samp_rate s))"
  have "- 2 * pi * 25 * 64 / real_of_int (samp_rate s) \<le> 0"
    using assms(2) by (simp add: divide_nonpos_pos)
  from float_round_mono [OF this] have "x \<le> 0" by (simp add: x_def)
  then have "0 \<le> exp x" "exp x \<le> 1" by simp_all
  from float_round_in_unit [OF this]
  have "0 \<le> 1 - float_round (exp x)" "1 - float_round (exp x) \<le> 1" by simp_all
  from float_round_in_unit [OF this] show "0 \<le> tau s" "tau s \<le> 1"
    by (simp_all add: reachable_tau [OF assms(1)] x_def)
qed

text \<open>
  One update of the wet/dry state, toward 1 (\<open>up\<close>) and toward 0 (\<open>down\<close>), from a
  binary32 value in the unit interval.
\<close>

lemma wet_dry_step_up:
  fixes w tau' :: real
  assumes "0 \<le> tau'" and "tau' \<le> 1" and "0 \<le> w" and "w \<le> 1" and "float_round w = w"
  defines "up \<equiv> float_round (w + float_round (float_round (tau' * float_round (1 - w)) + FLT_MIN))"
  shows "w \<le> up" and "up \<le> 1"
proof -
  define d where "d = float_round (1 - w)"
  define t where "t = float_round (tau' * d)"
  define u where "u = float_round (t + FLT_MIN)"
  have up: "up = float_round (w + u)" by (simp add: up_def u_def t_def d_def)
  have d: "0 \<le> d" "float_round d = d"
    using assms(4) float_round_nonneg [of "1 - w"] by (simp_all add: d_def)
  have "0 \<le> tau' * d" "tau' * d \<le> d"
    using assms(1,2) d(1) by (simp_all add: mult_left_le_one_le)
  then have t: "0 \<le> t" "t \<le> d"
    using float_round_nonneg [of "tau' * d"] float_round_mono [of "tau' * d" d]
    by (simp_all add: t_def d(2))
  have "FLT_MIN \<le> t + FLT_MIN" using t(1) by simp
  from float_round_mono [OF this] have u0: "FLT_MIN \<le> u" by (simp add: u_def)
  then have "w \<le> w + u" using FLT_MIN_pos by simp
  from float_round_mono [OF this] show "w \<le> up" by (simp add: up assms(5))
  have u1: "u \<le> float_round (d + FLT_MIN)"
    unfolding u_def using t(2) by (intro float_round_mono) simp
  have "\<bar>1 - w\<bar> \<le> 1" using assms(3,4) by simp
  from float_round_error_unit [OF this] have e: "d \<le> 1 - w + 1 / 2 ^ 25"
    unfolding d_def by linarith
  have "w + u \<le> 1 + 1 / 2 ^ 24"
  proof (cases "1 / 2 ^ 24 \<le> d")
    case True
    from float_round_absorb_FLT_MIN [OF d(2) True] u1 have "u \<le> d" by simp
    moreover have "(1::real) / 2 ^ 25 \<le> 1 / 2 ^ 24" by simp
    ultimately show ?thesis using e by linarith
  next
    case False
    have h: "float_round (1 / 2 ^ 24) = 1 / 2 ^ 24"
      using float_round_dyadic [of 1 "- 24"] by (simp add: power_int_minus_divide)
    have "d + FLT_MIN \<le> 1 / 2 ^ 24 + FLT_MIN" using False by simp
    from float_round_mono [OF this] float_round_absorb_FLT_MIN [OF h]
    have "float_round (d + FLT_MIN) \<le> 1 / 2 ^ 24" by simp
    with u1 assms(4) show ?thesis by linarith
  qed
  then show "up \<le> 1" unfolding up by (rule float_round_le_1)
qed

lemma wet_dry_step_down:
  fixes w tau' :: real
  assumes "0 \<le> tau'" and "tau' \<le> 1" and "0 \<le> w" and "w \<le> 1" and "float_round w = w"
  defines "down \<equiv> float_round (w + float_round (float_round (tau' * float_round (0 - w)) + FLT_MIN))"
  shows "0 \<le> down" and "down \<le> 1"
    and "FLT_MIN \<le> float_round (tau' * w) \<Longrightarrow> down \<le> w"
    and "float_round (tau' * w) \<le> FLT_MIN \<Longrightarrow> w \<le> down"
proof -
  define r where "r = float_round (tau' * w)"
  define u where "u = float_round (FLT_MIN - r)"
  have "float_round (tau' * float_round (0 - w)) = - r"
    by (simp add: float_round_minus assms(5) r_def)
  then have down: "down = float_round (w + u)" by (simp add: down_def u_def)
  have "0 \<le> tau' * w" "tau' * w \<le> w"
    using assms(1,2,3) by (simp_all add: mult_left_le_one_le)
  then have r: "0 \<le> r" "r \<le> w"
    using float_round_nonneg [of "tau' * w"] float_round_mono [of "tau' * w" w]
    by (simp_all add: r_def assms(5))
  have "- r \<le> FLT_MIN - r" using FLT_MIN_pos by simp
  from float_round_mono [OF this] have u0: "- r \<le> u"
    by (simp add: u_def float_round_minus r_def)
  have "FLT_MIN - r \<le> FLT_MIN" using r(1) by simp
  from float_round_mono [OF this] have u1: "u \<le> FLT_MIN" by (simp add: u_def)
  have "0 \<le> w + u" using u0 r(2) by linarith
  then show "0 \<le> down" unfolding down by (rule float_round_nonneg)
  have "FLT_MIN \<le> 1 / 2 ^ 24" by (simp add: FLT_MIN_def)
  then have "w + u \<le> 1 + 1 / 2 ^ 24" using u1 assms(4) by linarith
  then show "down \<le> 1" unfolding down by (rule float_round_le_1)
  show "down \<le> w" if "FLT_MIN \<le> float_round (tau' * w)"
  proof -
    have "FLT_MIN - r \<le> 0" using that by (simp add: r_def)
    from float_round_mono [OF this] have "w + u \<le> w" by (simp add: u_def)
    from float_round_mono [OF this] show ?thesis by (simp add: down assms(5))
  qed
  show "w \<le> down" if "float_round (tau' * w) \<le> FLT_MIN"
  proof -
    have "0 \<le> FLT_MIN - r" using that by (simp add: r_def)
    from float_round_nonneg [OF this] have "w \<le> w + u" by (simp add: u_def)
    from float_round_mono [OF this] show ?thesis by (simp add: down assms(5))
  qed
qed

lemma wet_dry_update:
  "wet_dry (fft_denoiser_update_wetdry_target s e)
     = float_round (wet_dry s
         + float_round (float_round (tau s * float_round ((if e then 1 else 0) - wet_dry s))
                        + FLT_MIN))"
  "wet_dry_target (fft_denoiser_update_wetdry_target s e) = (if e then 1 else 0)"
  by (simp_all add: fft_denoiser_update_wetdry_target_def Let_def)

lemma reachable_wet_dry_range:
  assumes "reachable E s" and "0 < samp_rate s"
  shows "0 \<le> wet_dry s \<and> wet_dry s \<le> 1 \<and> float_round (wet_dry s) = wet_dry s"
  using assms
proof (induction rule: reachable.induct)
  case (constructed rate n overlap_factor self)
  have "wet_dry self = 0"
    using constructed.hyps by (auto simp: fft_denoiser_initialize_def Let_def split: if_splits)
  then show ?case by simp
next
  case (parameters_loaded self p)
  then show ?case by (simp add: load_denoise_parameters_def)
next
  case (profile_loaded self profile)
  then show ?case by (simp add: load_noise_profile_def)
next
  case (frame_run self frame self' out)
  from fft_denoiser_run_wet_dry [OF frame_run.hyps(2)] obtain p :: DenoiseParameters where
    p: "wet_dry self' = wet_dry (fft_denoiser_update_wetdry_target self (enable p))"
       "tau self' = tau self" "samp_rate self' = samp_rate self"
    by blast
  have sr: "0 < samp_rate self" using frame_run.prems p(3) by simp
  note t = tau_range [OF frame_run.hyps(1) sr]
  from frame_run.IH [OF sr] have w: "0 \<le> wet_dry self" "wet_dry self \<le> 1"
    "float_round (wet_dry self) = wet_dry self"
    by simp_all
  have f: "float_round (wet_dry self') = wet_dry self'"
    by (simp add: p(1) wet_dry_update(1))
  show ?case
  proof (cases "enable p")
    case True
    from wet_dry_step_up [OF t w] w(1) f show ?thesis
      by (simp add: p(1) wet_dry_update(1) True)
  next
    case False
    from wet_dry_step_down(1,2) [OF t w] f show ?thesis
      by (simp add: p(1) wet_dry_update(1) False)
  qed
qed

text \<open>
  Claim C7, as amended.  The wet/dry state is 0 after construction and changes only by
  the update at the start of each call, which replaces it by
  \<open>wet_dry + (tau * (target - wet_dry) + FLT_MIN)\<close> with each operation rounded to
  binary32, the target being 1 when enabled and 0 when disabled.  For a positive sample
  rate \<open>tau\<close> lies in the unit interval and the state stays in the unit interval, before
  and after every update.  When enabled, an update does not decrease the state and does
  not take it past 1.  When disabled, an update does not take the state below 0; it does
  not increase the state when the rounded product \<open>tau * wet_dry\<close> is at least \<open>FLT_MIN\<close>,
  and it does not decrease the state when that product is at most \<open>FLT_MIN\<close>.
\<close>

theorem wet_dry_converges:
  fixes enabled :: bool
  assumes "reachable E s" and "0 < samp_rate s"
  defines "s' \<equiv> fft_denoiser_update_wetdry_target s enabled"
  shows "(\<forall>rate n overlap s0.
            fft_denoiser_initialize E rate n overlap = Some s0 \<longrightarrow> wet_dry s0 = 0)
       \<and> (\<forall>frame s'' out. fft_denoiser_run E s frame = Some (s'', out) \<longrightarrow>
            (\<exists>p. denoise_parameters s = Some p
               \<and> wet_dry s'' = wet_dry (fft_denoiser_update_wetdry_target s (enable p))))
       \<and> wet_dry_target s' = (if enabled then 1 else 0)
       \<and> wet_dry s'
           = float_round (wet_dry s
               + float_round (float_round (tau s * float_round (wet_dry_target s' - wet_dry s))
                              + FLT_MIN))
       \<and> 0 \<le> tau s \<and> tau s \<le> 1
       \<and> 0 \<le> wet_dry s \<and> wet_dry s \<le> 1
       \<and> 0 \<le> wet_dry s' \<and> wet_dry s' \<le> 1
       \<and> (enabled \<longrightarrow> wet_dry s \<le> wet_dry s')
       \<and> (\<not> enabled \<and> FLT_MIN \<le> float_round (tau s * wet_dry s) \<longrightarrow>
            wet_dry s' \<le> wet_dry s)
       \<and> (\<not> enabled \<and> float_round (tau s * wet_dry s) \<le> FLT_MIN \<longrightarrow>
            wet_dry s \<le> wet_dry s')"
proof -
  note t = tau_range [OF assms(1,2)]
  from reachable_wet_dry_range [OF assms(1,2)]
  have w: "0 \<le> wet_dry s" "wet_dry s \<le> 1" "float_round (wet_dry s) = wet_dry s"
    by simp_all
  have init: "\<forall>rate n overlap s0.
            fft_denoiser_initialize E rate n overlap = Some s0 \<longrightarrow> wet_dry s0 = 0"
    by (auto simp: fft_denoiser_initialize_def Let_def split: if_splits)
  have run: "\<forall>frame s'' out. fft_denoiser_run E s frame = Some (s'', out) \<longrightarrow>
            (\<exists>p. denoise_parameters s = Some p
               \<and> wet_dry s'' = wet_dry (fft_denoiser_update_wetdry_target s (enable p)))"
    using fft_denoiser_run_wet_dry by blast
  have tg: "wet_dry_target s' = (if enabled then 1 else 0)"
    by (simp add: s'_def wet_dry_update(2))
  have w': "wet_dry s'
           = float_round (wet_dry s
               + float_round (float_round (tau s * float_round (wet_dry_target s' - wet_dry s))
                              + FLT_MIN))"
    by (simp add: s'_def wet_dry_update)
  have range: "0 \<le> wet_dry s' \<and> wet_dry s' \<le> 1"
  proof (cases enabled)
    case True
    from wet_dry_step_up [OF t w] w(1) show ?thesis by (simp add: w' tg True)
  next
    case False
    from wet_dry_step_down(1,2) [OF t w] show ?thesis by (simp add: w' tg False)
  qed
  have up: "enabled \<longrightarrow> wet_dry s \<le> wet_dry s'"
    using wet_dry_step_up(1) [OF t w] by (simp add: w' tg)
  have down1: "\<not> enabled \<and> FLT_MIN \<le> float_round (tau s * wet_dry s) \<longrightarrow>
            wet_dry s' \<le> wet_dry s"
    using wet_dry_step_down(3) [OF t w] by (simp add: w' tg)
  have down2: "\<not> enabled \<and> float_round (tau s * wet_dry s) \<le> FLT_MIN \<longrightarrow>
            wet_dry s \<le> wet_dry s'"
    using wet_dry_step_down(4) [OF t w] by (simp add: w' tg)
  from init run tg w' t w(1,2) range up down1 down2 show ?thesis by (intro conjI) simp_all
qed


lemma fft_denoiser_run_fields:
  fixes E :: "('g, 'n) estimators" and frame :: "real list"
  assumes "denoise_parameters s = Some p" and "noise_profile_ptr s = Some profile"
  defines "s' \<equiv> fst (the (fft_denoiser_run E s frame))"
  shows "fft_denoiser_run E s frame = Some (s', snd (the (fft_denoiser_run E s frame)))"
    and "wet_dry s' = wet_dry (fft_denoiser_update_wetdry_target s (enable p))"
    and "wet_dry_target s' = (if enable p then 1 else 0)"
    and "tau s' = tau s" and "samp_rate s' = samp_rate s"
    and "half_fft_size s' = half_fft_size s"
    and "denoise_parameters s' = Some p"
    and "\<not> learn_noise p \<Longrightarrow> noise_profile_ptr s' = Some profile"
  using assms(1,2) unfolding s'_def
  by (simp_all add: fft_denoiser_run_Some [OF assms(1,2)] fft_denoiser_soft_bypass_keeps
      fft_denoiser_stages_keeps)

lemma example_tau:
  "1 / 16 \<le> tau example_denoiser" "tau example_denoiser \<le> 1 / 2"
  "float_round (tau example_denoiser) = tau example_denoiser"
proof -
  define a :: real where "a = - 2 * pi * 25 * 64 / 44100"
  define x where "x = float_round a"
  have tau: "tau example_denoiser = float_round (1 - float_round (exp x))"
    by (simp add: example_denoiser_fields x_def a_def)
  have v: "float_round (- (1 / 2)) = - (1 / 2)" "float_round (- (1 / 8)) = - (1 / 8)"
    "float_round (1 / 2) = 1 / 2" "float_round (15 / 16) = 15 / 16"
    "float_round (1 / 16) = 1 / 16"
    using float_round_dyadic [of "- 1" "- 1"] float_round_dyadic [of "- 1" "- 3"]
      float_round_dyadic [of 1 "- 1"] float_round_dyadic [of 15 "- 4"]
      float_round_dyadic [of 1 "- 4"]
    by (simp_all add: power_int_minus_divide)
  have "2 \<le> pi" "pi \<le> 4" using pi_ge_two pi_less_4 by simp_all
  then have "- (1 / 2) \<le> a" "a \<le> - (1 / 8)" by (simp_all add: a_def)
  then have x: "- (1 / 2) \<le> x" "x \<le> - (1 / 8)"
    using float_round_mono [of "- (1 / 2)" a] float_round_mono [of a "- (1 / 8)"]
    by (simp_all add: x_def v)
  have "1 + - (1 / 2) \<le> exp (- (1 / 2) :: real)" by (rule exp_ge_add_one_self)
  also have "\<dots> \<le> exp x" using x(1) by simp
  finally have lo: "1 / 2 \<le> exp x" by simp
  have "1 + 1 / 8 \<le> exp (1 / 8 :: real)" by (rule exp_ge_add_one_self)
  then have "inverse (exp (1 / 8 :: real)) \<le> inverse (1 + 1 / 8)"
    by (intro le_imp_inverse_le) simp_all
  then have "exp (- (1 / 8) :: real) \<le> 8 / 9" by (simp add: exp_minus)
  moreover have "exp x \<le> exp (- (1 / 8))" using x(2) by simp
  ultimately have hi: "exp x \<le> 15 / 16" by linarith
  from float_round_mono [OF lo] float_round_mono [OF hi]
  have "1 / 16 \<le> 1 - float_round (exp x)" "1 - float_round (exp x) \<le> 1 / 2"
    by (simp_all add: v)
  from float_round_mono [OF this(1)] float_round_mono [OF this(2)]
  show "1 / 16 \<le> tau example_denoiser" "tau example_denoiser \<le> 1 / 2"
    by (simp_all add: tau v)
  show "float_round (tau example_denoiser) = tau example_denoiser"
    by (simp add: tau)
qed

lemma example_after_one_frame:
  "reachable example_estimators example_after_one_frame"
  "wet_dry example_after_one_frame = FLT_MIN"
  "wet_dry_target example_after_one_frame = 0"
  "tau example_after_one_frame = tau example_denoiser"
  "samp_rate example_after_one_frame = 44100"
  "denoise_parameters example_after_one_frame = Some example_parameters"
  "noise_profile_ptr example_after_one_frame = Some example_profile"
proof -
  note f = fft_denoiser_run_fields [OF example_denoiser_fields(13,14),
      of example_estimators "[1, 0, 0, 0]", folded example_after_one_frame_def]
  have e: "enable example_parameters = False" "\<not> learn_noise example_parameters"
    by (simp_all add: example_parameters_def)
  show "reachable example_estimators example_after_one_frame"
    using reachable.frame_run [OF example_denoiser_reachable f(1)] .
  show "wet_dry example_after_one_frame = FLT_MIN"
    "wet_dry_target example_after_one_frame = 0"
    "tau example_after_one_frame = tau example_denoiser"
    "samp_rate example_after_one_frame = 44100"
    "denoise_parameters example_after_one_frame = Some example_parameters"
    "noise_profile_ptr example_after_one_frame = Some example_profile"
    using f(8) [OF e(2)]
    by (simp_all add: f e example_wet_dry example_denoiser_fields(3))
qed

lemma float_round_FLT_MIN_halves:
  "float_round (FLT_MIN / 2) = FLT_MIN / 2"
  "float_round (FLT_MIN + FLT_MIN / 2) = FLT_MIN + FLT_MIN / 2"
  using float_round_dyadic [of 1 "- 127"] float_round_dyadic [of 3 "- 127"]
  by (simp_all add: FLT_MIN_def power_int_minus_divide)

lemma wet_dry_drift:
  fixes tau' :: real
  assumes "0 \<le> tau'" and "tau' \<le> 1 / 2"
  shows "float_round (tau' * FLT_MIN) \<le> FLT_MIN"
    and "FLT_MIN + FLT_MIN / 2
         \<le> float_round (FLT_MIN
              + float_round (float_round (tau' * float_round (0 - FLT_MIN)) + FLT_MIN))"
proof -
  define r where "r = float_round (tau' * FLT_MIN)"
  have "tau' * FLT_MIN \<le> 1 / 2 * FLT_MIN"
    using assms(2) FLT_MIN_pos by (intro mult_right_mono) simp_all
  then have "tau' * FLT_MIN \<le> FLT_MIN / 2" by simp
  from float_round_mono [OF this] have r: "r \<le> FLT_MIN / 2"
    by (simp only: r_def float_round_FLT_MIN_halves)
  then show "float_round (tau' * FLT_MIN) \<le> FLT_MIN"
    using FLT_MIN_pos unfolding r_def by linarith
  have m: "float_round (tau' * float_round (0 - FLT_MIN)) = - r"
    by (simp add: float_round_minus r_def)
  have "FLT_MIN / 2 \<le> - r + FLT_MIN" using r by linarith
  from float_round_mono [OF this] have "FLT_MIN / 2 \<le> float_round (- r + FLT_MIN)"
    by (simp only: float_round_FLT_MIN_halves)
  then have "FLT_MIN + FLT_MIN / 2 \<le> FLT_MIN + float_round (- r + FLT_MIN)" by linarith
  from float_round_mono [OF this]
  show "FLT_MIN + FLT_MIN / 2
         \<le> float_round (FLT_MIN
              + float_round (float_round (tau' * float_round (0 - FLT_MIN)) + FLT_MIN))"
    by (simp only: float_round_FLT_MIN_halves m)
qed

lemma example_after_two_frames:
  "reachable example_estimators example_after_two_frames"
  "FLT_MIN + FLT_MIN / 2 \<le> wet_dry example_after_two_frames"
  "wet_dry_target example_after_two_frames = 0"
proof -
  note f = fft_denoiser_run_fields [OF example_after_one_frame(6,7),
      of example_estimators "[1, 0, 0, 0]", folded example_after_two_frames_def]
  have e: "enable example_parameters = False"
    by (simp add: example_parameters_def)
  have t: "0 \<le> tau example_denoiser" using example_tau(1) by linarith
  show "reachable example_estimators example_after_two_frames"
    using reachable.frame_run [OF example_after_one_frame(1) f(1)] .
  show "FLT_MIN + FLT_MIN / 2 \<le> wet_dry example_after_two_frames"
    using wet_dry_drift(2) [OF t example_tau(2)]
    by (simp add: f(2) e wet_dry_update(1) example_after_one_frame)
  show "wet_dry_target example_after_two_frames = 0"
    by (simp add: f e)
qed

text \<open>
  Claim C7 as stated fails with the denoiser disabled from the start: the state is at its
  target 0 after construction, the first frame moves it to \<open>FLT_MIN\<close>, above the target,
  and the second frame raises it again, to at least one and a half times \<open>FLT_MIN\<close>.
\<close>

theorem wet_dry_leaves_target_counterexample:
  "wet_dry example_denoiser = 0
   \<and> enable example_parameters = False
   \<and> wet_dry_target example_after_one_frame = 0
   \<and> wet_dry example_after_one_frame = FLT_MIN
   \<and> wet_dry_target example_after_two_frames = 0
   \<and> wet_dry_target example_after_one_frame < wet_dry example_after_one_frame
   \<and> wet_dry example_after_one_frame < wet_dry example_after_two_frames"
proof -
  have "FLT_MIN < FLT_MIN + FLT_MIN / 2" using FLT_MIN_pos by simp
  then have "FLT_MIN < wet_dry example_after_two_frames"
    using example_after_two_frames(2) by linarith
  then show ?thesis
    using FLT_MIN_pos
    by (simp add: example_after_one_frame example_after_two_frames(3) example_denoiser_fields(4)
        example_parameters_def)
qed


lemma example_enabled:
  "reachable example_estimators example_enabled"
  "wet_dry example_enabled = tau example_denoiser"
  "tau example_enabled = tau example_denoiser"
  "samp_rate example_enabled = 44100"
proof -
  let ?s = "load_denoise_parameters example_denoiser (example_parameters\<lparr>enable := True\<rparr>)"
  have l: "denoise_parameters ?s = Some (example_parameters\<lparr>enable := True\<rparr>)"
    "noise_profile_ptr ?s = Some example_profile"
    "wet_dry ?s = 0" "samp_rate ?s = 44100"
    by (simp_all add: load_denoise_parameters_def example_denoiser_fields)
  have lt: "tau ?s = tau example_denoiser"
    by (simp add: load_denoise_parameters_def)
  note f = fft_denoiser_run_fields [OF l(1,2), of example_estimators "[1, 0, 0, 0]",
      folded example_enabled_def]
  have r: "reachable example_estimators ?s"
    using example_denoiser_reachable by (rule reachable.parameters_loaded)
  show "reachable example_estimators example_enabled"
    using reachable.frame_run [OF r f(1)] .
  have "1 / 2 ^ 24 \<le> tau example_denoiser" using example_tau(1) by simp
  from float_round_absorb_FLT_MIN [OF example_tau(3) this]
  show "wet_dry example_enabled = tau example_denoiser"
    by (simp add: f(2) wet_dry_update(1) l(3) lt example_tau(3))
  show "tau example_enabled = tau example_denoiser"
    "samp_rate example_enabled = 44100"
    by (simp_all add: f l lt)
qed

text \<open>
  Claim C7 in the example denoiser: enabled, from 0 upward; disabled, from the state
  \<open>FLT_MIN\<close> that one disabled frame leaves, where the product with \<open>tau\<close> is below
  \<open>FLT_MIN\<close> and the update does not decrease the state; and disabled, from the state \<open>tau\<close>
  that one enabled frame leaves, where the product is above \<open>FLT_MIN\<close> and the update does
  not increase the state.
\<close>

theorem wet_dry_converges_witness:
  "reachable example_estimators example_denoiser \<and> 0 < samp_rate example_denoiser
   \<and> fft_denoiser_initialize example_estimators 44100 4 4
       = Some (the (fft_denoiser_initialize example_estimators 44100 4 4))
   \<and> wet_dry (the (fft_denoiser_initialize example_estimators 44100 4 4)) = 0
   \<and> fft_denoiser_run example_estimators example_denoiser [1, 0, 0, 0]
       = Some (example_after_one_frame,
               snd (the (fft_denoiser_run example_estimators example_denoiser [1, 0, 0, 0])))
   \<and> wet_dry example_after_one_frame
       = wet_dry (fft_denoiser_update_wetdry_target example_denoiser (enable example_parameters))
   \<and> wet_dry example_denoiser
       \<le> wet_dry (fft_denoiser_update_wetdry_target example_denoiser True)
   \<and> wet_dry (fft_denoiser_update_wetdry_target example_denoiser True) \<le> 1
   \<and> reachable example_estimators example_after_one_frame
   \<and> 0 < samp_rate example_after_one_frame
   \<and> float_round (tau example_after_one_frame * wet_dry example_after_one_frame) \<le> FLT_MIN
   \<and> wet_dry example_after_one_frame
       \<le> wet_dry (fft_denoiser_update_wetdry_target example_after_one_frame False)
   \<and> reachable example_estimators example_enabled \<and> 0 < samp_rate example_enabled
   \<and> FLT_MIN \<le> float_round (tau example_enabled * wet_dry example_enabled)
   \<and> 0 \<le> wet_dry (fft_denoiser_update_wetdry_target example_enabled False)
   \<and> wet_dry (fft_denoiser_update_wetdry_target example_enabled False)
       \<le> wet_dry example_enabled"
proof -
  have h1: "reachable example_estimators example_denoiser" "0 < samp_rate example_denoiser"
    by (simp_all add: example_denoiser_reachable example_denoiser_fields(3))
  have h2: "reachable example_estimators example_after_one_frame"
    "0 < samp_rate example_after_one_frame"
    by (simp_all add: example_after_one_frame)
  have h3: "reachable example_estimators example_enabled" "0 < samp_rate example_enabled"
    by (simp_all add: example_enabled)
  have i: "fft_denoiser_initialize example_estimators 44100 4 4
       = Some (the (fft_denoiser_initialize example_estimators 44100 4 4))"
    by (simp add: fft_denoiser_initialize_def)
  note r = fft_denoiser_run_fields(1) [OF example_denoiser_fields(13,14),
      of example_estimators "[1, 0, 0, 0]", folded example_after_one_frame_def]
  have t: "0 \<le> tau example_denoiser" using example_tau(1) by linarith
  have small: "float_round (tau example_after_one_frame * wet_dry example_after_one_frame)
      \<le> FLT_MIN"
    using wet_dry_drift(1) [OF t example_tau(2)] by (simp add: example_after_one_frame)
  have "1 / 16 * (1 / 16) \<le> tau example_denoiser * tau example_denoiser"
    using example_tau(1) by (intro mult_mono) simp_all
  moreover have "FLT_MIN \<le> 1 / 16 * (1 / 16)" by (simp add: FLT_MIN_def)
  ultimately have "FLT_MIN \<le> tau example_denoiser * tau example_denoiser"
    by (rule order_trans [rotated])
  from float_round_mono [OF this]
  have large: "FLT_MIN \<le> float_round (tau example_enabled * wet_dry example_enabled)"
    by (simp add: example_enabled)
  note c1 = wet_dry_converges [OF h1, of True]
  note c2 = wet_dry_converges [OF h2, of False]
  note c3 = wet_dry_converges [OF h3, of False]
  from c1 i have init0: "wet_dry (the (fft_denoiser_initialize example_estimators 44100 4 4)) = 0"
    by blast
  from c1 r have "\<exists>p. denoise_parameters example_denoiser = Some p
      \<and> wet_dry example_after_one_frame
          = wet_dry (fft_denoiser_update_wetdry_target example_denoiser (enable p))"
    by blast
  then have one: "wet_dry example_after_one_frame
      = wet_dry (fft_denoiser_update_wetdry_target example_denoiser (enable example_parameters))"
    by (simp add: example_denoiser_fields(13))
  note c1' = c1 [THEN conjunct2, THEN conjunct2, THEN conjunct2, THEN conjunct2,
      THEN conjunct2, THEN conjunct2, THEN conjunct2, THEN conjunct2, THEN conjunct2]
  note c2' = c2 [THEN conjunct2, THEN conjunct2, THEN conjunct2, THEN conjunct2,
      THEN conjunct2, THEN conjunct2, THEN conjunct2, THEN conjunct2, THEN conjunct2]
  note c3' = c3 [THEN conjunct2, THEN conjunct2, THEN conjunct2, THEN conjunct2,
      THEN conjunct2, THEN conjunct2, THEN conjunct2, THEN conjunct2]
  from c1' [THEN conjunct2, THEN conjunct1] c1' [THEN conjunct1] have up:
    "wet_dry example_denoiser \<le> wet_dry (fft_denoiser_update_wetdry_target example_denoiser True)"
    "wet_dry (fft_denoiser_update_wetdry_target example_denoiser True) \<le> 1"
    by simp_all
  from c2' [THEN conjunct2, THEN conjunct2, THEN conjunct2] small
  have drift: "wet_dry example_after_one_frame
       \<le> wet_dry (fft_denoiser_update_wetdry_target example_after_one_frame False)"
    by simp
  from c3' [THEN conjunct1] c3' [THEN conjunct2, THEN conjunct2, THEN conjunct2, THEN conjunct1]
    large
  have down:
    "0 \<le> wet_dry (fft_denoiser_update_wetdry_target example_enabled False)"
    "wet_dry (fft_denoiser_update_wetdry_target example_enabled False) \<le> wet_dry example_enabled"
    by simp_all
  from h1 i init0 r one up h2 small drift h3 large down show ?thesis
    by (intro conjI)
qed


lemma is_empty_iff:
  "is_empty spectrum N \<longleftrightarrow> (\<forall>k. 1 \<le> k \<and> k \<le> N \<longrightarrow> spectrum ! k \<le> FLT_MIN)"
  by (auto simp add: is_empty_def list_all_iff not_less simp del: upt_Suc)

text \<open>
  Claim C6.  When the power spectrum of the frame is at or below \<open>FLT_MIN\<close> at every bin,
  the estimation and suppression stages leave the state as the analysis of the bins
  produced it, for any gain and noise estimator: the call returns with the noise profile,
  both estimators, and the gain, denoised, residual and whitening buffers unchanged, and
  the processed spectrum handed to the soft bypass is the one left by the previous call.
\<close>

theorem silent_frame_skips_estimation:
  assumes "denoise_parameters s = Some p" and "noise_profile_ptr s = Some profile"
    and "\<forall>k\<le>half_fft_size s.
           power_spectrum (fft_denoiser_analyse s (enable p) frame) ! k \<le> FLT_MIN"
  shows "fft_denoiser_stages E s p profile frame = fft_denoiser_analyse s (enable p) frame
       \<and> processed_fft_spectrum (fft_denoiser_stages E s p profile frame)
           = processed_fft_spectrum s
       \<and> (\<exists>s' out. fft_denoiser_run E s frame = Some (s', out)
             \<and> noise_profile_ptr s' = Some profile
             \<and> noise_estimation s' = noise_estimation s
             \<and> gain_estimation s' = gain_estimation s
             \<and> gain_spectrum s' = gain_spectrum s
             \<and> denoised_spectrum s' = denoised_spectrum s
             \<and> residual_spectrum s' = residual_spectrum s
             \<and> whitened_residual_spectrum s' = whitened_residual_spectrum s
             \<and> residual_max_spectrum s' = residual_max_spectrum s
             \<and> whitening_window_count s' = whitening_window_count s)"
proof -
  have "is_empty (power_spectrum (fft_denoiser_analyse s (enable p) frame)) (half_fft_size s)"
    using assms(3) by (simp add: is_empty_iff)
  then have st: "fft_denoiser_stages E s p profile frame
      = fft_denoiser_analyse s (enable p) frame"
    by (rule fft_denoiser_stages_silent)
  show ?thesis
    using assms(2)
    by (simp add: fft_denoiser_run_Some [OF assms(1,2)] st fft_denoiser_soft_bypass_keeps
        fft_denoiser_analyse_keeps)
qed

text \<open>
  Claim C6 on the all-zero frame in the example denoiser.
\<close>

theorem silent_frame_skips_estimation_witness:
  "denoise_parameters example_denoiser = Some example_parameters
   \<and> noise_profile_ptr example_denoiser = Some example_profile
   \<and> power_spectrum (fft_denoiser_analyse example_denoiser (enable example_parameters)
         [0, 0, 0, 0]) = [0, 0, 0]
   \<and> half_fft_size example_denoiser = 2
   \<and> fft_denoiser_stages example_estimators example_denoiser example_parameters example_profile
         [0, 0, 0, 0]
       = fft_denoiser_analyse example_denoiser (enable example_parameters) [0, 0, 0, 0]
   \<and> (\<exists>s' out. fft_denoiser_run example_estimators example_denoiser [0, 0, 0, 0] = Some (s', out)
         \<and> noise_profile_ptr s' = Some example_profile
         \<and> noise_estimation s' = 0
         \<and> gain_estimation s' = 0
         \<and> gain_spectrum s' = [0, 0, 0]
         \<and> denoised_spectrum s' = [0, 0, 0]
         \<and> residual_spectrum s' = [0, 0, 0])"
proof -
  have h: "denoise_parameters example_denoiser = Some example_parameters"
    "noise_profile_ptr example_denoiser = Some example_profile"
    by (simp_all add: example_denoiser_fields)
  have pw: "power_spectrum (fft_denoiser_analyse example_denoiser (enable example_parameters)
         [0, 0, 0, 0]) = [0, 0, 0]"
    by (rule example_power)
  have silent: "\<forall>k\<le>half_fft_size example_denoiser.
      power_spectrum (fft_denoiser_analyse example_denoiser (enable example_parameters)
         [0, 0, 0, 0]) ! k \<le> FLT_MIN"
    using FLT_MIN_pos by (simp add: pw example_denoiser_fields nth_Cons split: nat.split)
  from silent_frame_skips_estimation [OF h silent, of example_estimators]
  show ?thesis
    using h pw by (auto simp: example_denoiser_fields)
qed

text \<open>
  Claim C10 on the frame \<open>[3, 2, 0, 0]\<close> in the example denoiser.
\<close>

theorem dc_bin_zero_witness:
  "reachable example_estimators example_denoiser \<and> 1 \<le> half_fft_size example_denoiser
   \<and> denoise_parameters example_denoiser = Some example_parameters
   \<and> noise_profile_ptr example_denoiser = Some example_profile
   \<and> (\<exists>s' out. fft_denoiser_run example_estimators example_denoiser [3, 2, 0, 0] = Some (s', out)
         \<and> out ! 0 = Float 0 \<and> processed_fft_spectrum s' ! 0 = 0)"
proof -
  have h: "1 \<le> half_fft_size example_denoiser"
    "denoise_parameters example_denoiser = Some example_parameters"
    "noise_profile_ptr example_denoiser = Some example_profile"
    by (simp_all add: example_denoiser_fields)
  from dc_bin_zero [OF example_denoiser_reachable h, where frame = "[3, 2, 0, 0]"]
  show ?thesis
    using h example_denoiser_reachable by simp
qed

text \<open>
  Claim C3 on the frame \<open>[0, 2, 0, 0]\<close> in the example denoiser: entry 1 blends the raw
  value 2 with the processed value \<open>11 / 10\<close>.
\<close>

theorem soft_bypass_blend_witness:
  "reachable example_estimators example_denoiser
   \<and> denoise_parameters example_denoiser = Some example_parameters
   \<and> noise_profile_ptr example_denoiser = Some example_profile
   \<and> length [0, 2, 0, 0::real] = fft_size example_denoiser
   \<and> 1 \<le> half_fft_size example_denoiser
   \<and> (1::nat) \<le> 1 \<and> 1 < half_fft_size example_denoiser
   \<and> (\<exists>s' out. fft_denoiser_run example_estimators example_denoiser [0, 2, 0, 0] = Some (s', out)
         \<and> wet_dry s' = FLT_MIN
         \<and> out ! 0 = Float 0
         \<and> out ! 1 = Float ((1 - FLT_MIN) * 2 + FLT_MIN * (11 / 10)))"
proof -
  let ?st = "fft_denoiser_stages example_estimators example_denoiser example_parameters
               example_profile [0, 2, 0, 0]"
  have h: "denoise_parameters example_denoiser = Some example_parameters"
    "noise_profile_ptr example_denoiser = Some example_profile"
    "length [0, 2, 0, 0::real] = fft_size example_denoiser"
    by (simp_all add: example_denoiser_fields)
  have half: "1 \<le> half_fft_size example_denoiser" "1 < half_fft_size example_denoiser"
    by (simp_all add: example_denoiser_fields)
  have "fft_denoiser_inv ?st"
    using example_denoiser_reachable by (simp add: reachable_inv fft_denoiser_stages_inv)
  then have zero: "processed_fft_spectrum ?st ! 0 = 0"
    by (simp add: fft_denoiser_inv_def)
  have w: "wet_dry (fft_denoiser_update_wetdry_target example_denoiser (enable example_parameters))
      = FLT_MIN"
    by (simp add: example_wet_dry example_parameters_def)
  from soft_bypass_blend [OF example_denoiser_reachable h]
  obtain s' out where r:
    "fft_denoiser_run example_estimators example_denoiser [0, 2, 0, 0] = Some (s', out)"
    "wet_dry s' = FLT_MIN"
    "1 \<le> half_fft_size example_denoiser \<longrightarrow> out ! 0 = Float (processed_fft_spectrum ?st ! 0)"
    "\<forall>k. 1 \<le> k \<and> k < half_fft_size example_denoiser \<longrightarrow>
       out ! k = Float ((1 - wet_dry s') * [0, 2, 0, 0] ! k
                  + wet_dry s' * processed_fft_spectrum ?st ! k)"
    unfolding w by blast
  from r(3) half(1) zero have o0: "out ! 0 = Float 0" by simp
  from r(4) half(2) have "out ! 1 = Float ((1 - wet_dry s') * [0, 2, 0, 0] ! 1
                  + wet_dry s' * processed_fft_spectrum ?st ! 1)"
    by blast
  then have o1: "out ! 1 = Float ((1 - FLT_MIN) * 2 + FLT_MIN * (11 / 10))"
    unfolding example_final r(2) by simp
  from example_denoiser_reachable h half r(1,2) o0 o1 show ?thesis
    by blast
qed

section \<open>Saving and restoring the plugin state\<close>

lemma bytes_int_int_bytes: "bytes_int (int_bytes w) = w"
proof (rule bit_word_eqI)
  fix n
  assume "n < LENGTH(32)"
  then have "n < 32" by simp
  then consider "n < 8" | "8 \<le> n" "n < 16" | "16 \<le> n" "n < 24" | "24 \<le> n" "n < 32"
    by linarith
  then show "bit (bytes_int (int_bytes w)) n \<longleftrightarrow> bit w n"
    by cases (auto simp: bytes_int_def int_bytes_def bit_simps)
qed

lemma take_int_bytes: "take 4 (int_bytes w) = int_bytes w"
  by (simp add: int_bytes_def)

text \<open>
  For any keys, handle and inputs: restoring after saving succeeds and gives back
  \<^verbatim>\<open>fft_size\<close>, the value kept for the noise profile is the size field and the padding
  of the object, and none of its bytes lies at the address handed to
  \<^verbatim>\<open>set_noise_profile\<close>.
\<close>

lemma plugin_state_roundtrip:
  assumes "property_fft_size self \<noteq> property_saved_noise_profile self"
    and "length (object_padding obj) = 4"
  shows "plugin_state_restorestate self (plugin_state_savestate self handle fft obj)
          = Some (fft, [])"
    and "map_option value_bytes
          (retrieve (plugin_state_savestate self handle fft obj)
             (property_saved_noise_profile self))
          = Some (int_bytes (object_size obj) @ object_padding obj)"
  using assms
  by (simp_all add: plugin_state_restorestate_def plugin_state_savestate_def store_def
      retrieve_def sizeof_int_def sizeof_pointer_def sizeof_LV2_Atom_def
      object_representation_def int_bytes_def [of "object_size obj"]
      bytes_int_int_bytes take_int_bytes Let_def)

text \<open>
  Claim C9 fails on the code.  Saving a profile of three magnitudes and restoring it gives
  back the transform size 2048, but the value kept for the profile is 8 bytes, the size
  field 3 and the padding, and the data handed to \<^verbatim>\<open>set_noise_profile\<close> holds no byte of
  it: the magnitudes \<open>[1, 2, 3]\<close> are neither stored nor restored.
\<close>

theorem plugin_state_roundtrip_loses_profile:
  "plugin_state_restorestate example_plugin_state
     (plugin_state_savestate example_plugin_state Map.empty 2048 example_object)
   = Some (2048, [])
   \<and> map_option value_bytes
       (retrieve (plugin_state_savestate example_plugin_state Map.empty 2048 example_object)
          (property_saved_noise_profile example_plugin_state))
     = Some [3, 0, 0, 0, 0, 0, 0, 0]
   \<and> object_magnitudes example_object = [1, 2, 3]"
  by (simp add: plugin_state_restorestate_def plugin_state_savestate_def store_def retrieve_def
      example_plugin_state_def sizeof_int_def sizeof_pointer_def sizeof_LV2_Atom_def
      object_representation_def example_object_def int_bytes_def bytes_int_def)

end
